theory Spec2Isabelle
  imports Complex_Main "HOL-Library.AList"
begin

section \<open>Python values used by the court client\<close>

text \<open>
  The client (\<^verbatim>\<open>src/local_python/court_client.py\<close>) receives JSON text frames and works on
  what \<^verbatim>\<open>json.loads\<close> returns. A decoded value is one of the constructors below. A Python
  \<^verbatim>\<open>dict\<close> is an association list read with \<open>map_of\<close> (first binding of a key wins; the
  list stands for the dictionary the decoder built). A float carries its value as a rational;
  the only float operations of the program are truthiness and an integer format that every
  float fails, and the non-finite floats that \<^verbatim>\<open>json.loads\<close> also accepts behave there as a
  non-zero float does.
\<close>

datatype json =
    JNull
  | JBool bool
  | JInt int
  | JFloat rat
  | JStr string
  | JArr "json list"
  | JObj "(string \<times> json) list"

text \<open>Exception classes; the last two derive from \<^verbatim>\<open>BaseException\<close> only.\<close>

datatype exn =
    JSONDecodeError
  | AttributeError
  | TypeError
  | ValueError
  | UnicodeDecodeError
  | KeyError
  | OSError
  | TimeoutExpired
  | ConnectionClosed
  | CancelledError
  | KeyboardInterrupt

fun is_Exception :: "exn \<Rightarrow> bool" where
  "is_Exception CancelledError = False"
| "is_Exception KeyboardInterrupt = False"
| "is_Exception _ = True"

fun exn_name :: "exn \<Rightarrow> string" where
  "exn_name JSONDecodeError = ''JSONDecodeError''"
| "exn_name AttributeError = ''AttributeError''"
| "exn_name TypeError = ''TypeError''"
| "exn_name ValueError = ''ValueError''"
| "exn_name UnicodeDecodeError = ''UnicodeDecodeError''"
| "exn_name KeyError = ''KeyError''"
| "exn_name OSError = ''OSError''"
| "exn_name TimeoutExpired = ''TimeoutExpired''"
| "exn_name ConnectionClosed = ''ConnectionClosed''"
| "exn_name CancelledError = ''CancelledError''"
| "exn_name KeyboardInterrupt = ''KeyboardInterrupt''"

text \<open>Truth value testing (\<^verbatim>\<open>if x:\<close>, \<^verbatim>\<open>not x\<close>).\<close>

fun py_truthy :: "json \<Rightarrow> bool" where
  "py_truthy JNull = False"
| "py_truthy (JBool b) = b"
| "py_truthy (JInt i) = (i \<noteq> 0)"
| "py_truthy (JFloat r) = (r \<noteq> 0)"
| "py_truthy (JStr s) = (s \<noteq> [])"
| "py_truthy (JArr xs) = (xs \<noteq> [])"
| "py_truthy (JObj kvs) = (kvs \<noteq> [])"

text \<open>\<^verbatim>\<open>d.get(k, default)\<close> on a dictionary.\<close>

definition dict_get :: "(string \<times> json) list \<Rightarrow> string \<Rightarrow> json \<Rightarrow> json" where
  "dict_get d k dflt = (case map_of d k of Some v \<Rightarrow> v | None \<Rightarrow> dflt)"

text \<open>
  \<^verbatim>\<open>x.get(k, default)\<close> on an arbitrary decoded value: only a dictionary has the method,
  every other value raises \<^verbatim>\<open>AttributeError\<close>.
\<close>

fun py_get :: "json \<Rightarrow> string \<Rightarrow> json \<Rightarrow> exn + json" where
  "py_get (JObj d) k dflt = Inr (dict_get d k dflt)"
| "py_get _ k dflt = Inl AttributeError"

subsection \<open>Decimal numerals and the \<^verbatim>\<open>02d\<close> format\<close>

definition digit_char :: "nat \<Rightarrow> char" where
  "digit_char d = ''0123456789'' ! d"

definition is_digit :: "char \<Rightarrow> bool" where
  "is_digit c = (c \<in> set ''0123456789'')"

definition digit_val :: "char \<Rightarrow> nat" where
  "digit_val c = of_char c - 48"

fun str_of_nat :: "nat \<Rightarrow> string" where
  "str_of_nat n =
     (if n < 10 then [digit_char n] else str_of_nat (n div 10) @ [digit_char (n mod 10)])"

declare str_of_nat.simps [simp del]

text \<open>\<^verbatim>\<open>str(i)\<close> of a Python integer.\<close>

definition str_of_int :: "int \<Rightarrow> string" where
  "str_of_int i = (if i < 0 then CHR ''-'' # str_of_nat (nat (- i)) else str_of_nat (nat i))"

text \<open>
  \<^verbatim>\<open>f"{i:02d}"\<close>: the decimal numeral, zero-filled to a total width of two. A negative
  number already has two characters with its sign, so only a one-digit non-negative number is
  filled.
\<close>

definition fmt_02d :: "int \<Rightarrow> string" where
  "fmt_02d i =
     (let s = str_of_int i in replicate (2 - length s) (CHR ''0'') @ s)"

text \<open>Reading a decimal numeral back, most significant digit first.\<close>

definition read_nat :: "string \<Rightarrow> nat" where
  "read_nat s = foldl (\<lambda>a c. 10 * a + digit_val c) 0 s"

subsection \<open>The duration string of \<^verbatim>\<open>_handle_start_record\<close>\<close>

text \<open>
  \<^verbatim>\<open>
  hours = duration // 3600
  minutes = (duration % 3600) // 60
  seconds = duration % 60
  duration_str = f"{hours:02d}:{minutes:02d}:{seconds:02d}"
  \<close>
  \<^verbatim>\<open>duration\<close> is whatever the frame's \<^verbatim>\<open>meta\<close> holds. Python's \<^verbatim>\<open>//\<close> and \<^verbatim>\<open>%\<close> on integers
  are floor division and its remainder, as \<open>div\<close> and \<open>mod\<close> are on \<open>int\<close>. A \<^verbatim>\<open>bool\<close> is an
  integer (0 or 1). A float passes the arithmetic and fails the \<^verbatim>\<open>d\<close> format with
  \<^verbatim>\<open>ValueError\<close>; \<^verbatim>\<open>None\<close>, a string, a list and a dictionary fail \<^verbatim>\<open>//\<close> with
  \<^verbatim>\<open>TypeError\<close>.
\<close>

definition hms_str :: "int \<Rightarrow> string" where
  "hms_str duration =
     (let hours = duration div 3600;
          minutes = (duration mod 3600) div 60;
          seconds = duration mod 60
      in fmt_02d hours @ '':'' @ fmt_02d minutes @ '':'' @ fmt_02d seconds)"

fun duration_str :: "json \<Rightarrow> exn + string" where
  "duration_str (JInt d) = Inr (hms_str d)"
| "duration_str (JBool b) = Inr (hms_str (if b then 1 else 0))"
| "duration_str (JFloat r) = Inl ValueError"
| "duration_str _ = Inl TypeError"

text \<open>The encoder command line of \<^verbatim>\<open>_handle_start_record\<close>.\<close>

definition record_ffmpeg_cmd :: "string \<Rightarrow> json \<Rightarrow> string \<Rightarrow> string \<Rightarrow> string list" where
  "record_ffmpeg_cmd rtsp_url quality dstr output_file =
     [''ffmpeg'',
      ''-rtsp_transport'', ''tcp'',
      ''-i'', rtsp_url,
      ''-c:v'', ''libx264'',
      ''-preset'', ''ultrafast'',
      ''-crf'', (if quality = JStr ''1080p'' then ''18'' else ''23''),
      ''-pix_fmt'', ''yuv420p'',
      ''-c:a'', ''aac'',
      ''-b:a'', ''128k'',
      ''-ar'', ''44100'',
      ''-ac'', ''1'',
      ''-t'', dstr,
      ''-y'',
      output_file]"

section \<open>Strings and paths\<close>

text \<open>
  \<^verbatim>\<open>str.lower\<close>, \<^verbatim>\<open>str.strip\<close>, \<^verbatim>\<open>sub in s\<close>, \<^verbatim>\<open>str.startswith\<close>, \<^verbatim>\<open>' '.join\<close> and the
  POSIX \<^verbatim>\<open>os.path.join\<close> of two components, on ASCII text.
\<close>

definition py_lower_char :: "char \<Rightarrow> char" where
  "py_lower_char c =
     (case map_of (zip ''ABCDEFGHIJKLMNOPQRSTUVWXYZ'' ''abcdefghijklmnopqrstuvwxyz'') c of
        Some l \<Rightarrow> l
      | None \<Rightarrow> c)"

definition py_lower :: "string \<Rightarrow> string" where
  "py_lower s = map py_lower_char s"

definition is_space :: "char \<Rightarrow> bool" where
  "is_space c =
     (c \<in> set [CHR '' '', CHR 0x09, CHR 0x0A, CHR 0x0B, CHR 0x0C, CHR 0x0D,
                CHR 0x1C, CHR 0x1D, CHR 0x1E, CHR 0x1F])"

definition py_strip :: "string \<Rightarrow> string" where
  "py_strip s = rev (dropWhile is_space (rev (dropWhile is_space s)))"

definition startswith :: "string \<Rightarrow> string \<Rightarrow> bool" where
  "startswith s p = (take (length p) s = p)"

fun py_in :: "string \<Rightarrow> string \<Rightarrow> bool" where
  "py_in sub [] = (sub = [])"
| "py_in sub (c # cs) = (startswith (c # cs) sub \<or> py_in sub cs)"

fun join_words :: "string list \<Rightarrow> string" where
  "join_words [] = []"
| "join_words [w] = w"
| "join_words (w # ws) = w @ '' '' @ join_words ws"

definition os_path_join :: "string \<Rightarrow> string \<Rightarrow> string" where
  "os_path_join a b =
     (if startswith b ''/'' then b
      else if a = [] \<or> last a = CHR ''/'' then a @ b
      else a @ ''/'' @ b)"

section \<open>The agent's state and its environment\<close>

text \<open>
  \<^verbatim>\<open>self.current_processes\<close> maps a key to a \<^verbatim>\<open>Popen\<close> object. The objects live in
  \<open>procs\<close>; a handle is the object's index there, and \<open>proc_status\<close> is what \<^verbatim>\<open>poll()\<close>
  reports. \<open>proc_role\<close> records which handler launched the process. \<open>logged\<close> holds the
  logger's records, \<open>sent\<close> the frames written with \<^verbatim>\<open>self.ws.send\<close> (each as the object
  handed to \<^verbatim>\<open>json.dumps\<close>), \<open>tasks\<close> the monitor tasks handed to
  \<^verbatim>\<open>asyncio.create_task\<close>.
\<close>

datatype pstatus = Running | Exited int

datatype role = Capture | Broadcast | DiagnosticCapture | DiagnosticBroadcast

record proc =
  proc_argv :: "string list"
  proc_role :: role
  proc_status :: pstatus

datatype level = DEBUG | INFO | WARNING | ERROR

datatype task = MonitorFfmpeg nat string | MonitorStream nat

record state =
  current_processes :: "(string \<times> nat) list"
  procs :: "proc list"
  logged :: "(level \<times> string) list"
  sent :: "json list"
  tasks :: "task list"
  running :: bool

definition initial_state :: state where
  "initial_state =
     \<lparr>current_processes = [], procs = [], logged = [], sent = [], tasks = [], running = True\<rparr>"

text \<open>
  The configuration dictionary, with the keys the handlers read. A key read with
  \<^verbatim>\<open>config.get\<close> or \<^verbatim>\<open>config[...]\<close> may be absent (\<open>None\<close>).
\<close>

record config =
  max_retries :: "int option"
  retry_delay :: "int option"
  rtsp_url :: "string option"
  youtube_stream_key :: "string option"
  recordings_dir :: "string option"

text \<open>
  What the world answers during one command: the clock, the outcome of each external call,
  and how the external processes behave. \<open>format_value\<close> is the text an f-string gives a
  float, a list or a dictionary. \<open>settle_exit\<close> is the exit code of the process just launched
  if it ends within the settle sleep. \<open>wait_result pid\<close> is the exit code of process \<open>pid\<close>
  if it ends within the ten seconds after \<^verbatim>\<open>terminate()\<close>, \<open>None\<close> if \<^verbatim>\<open>wait\<close> times out.

  The processes are opened in text mode (\<^verbatim>\<open>universal_newlines=True\<close>), so
  \<^verbatim>\<open>process.communicate()\<close> decodes what it reads from the pipes: it raises
  \<^verbatim>\<open>UnicodeDecodeError\<close> on bytes that are no text, and \<^verbatim>\<open>OSError\<close> when reading a pipe
  fails. \<open>settle_error\<close> is the error, if any, of the \<^verbatim>\<open>communicate()\<close> call made after a
  process ended within the settle sleep; without an error the call returns \<open>settle_output\<close>.
\<close>

datatype probe_result = ProbeExit int string | ProbeTimeout | ProbeError

datatype communicate_error = DecodeError | PipeError

fun communicate_exn :: "communicate_error \<Rightarrow> exn" where
  "communicate_exn DecodeError = UnicodeDecodeError"
| "communicate_exn PipeError = OSError"

record env =
  timestamp :: string
  isoformat_first :: string
  isoformat_second :: string
  format_value :: "json \<Rightarrow> string"
  makedirs_ok :: bool
  ffmpeg_ok :: bool
  probe :: probe_result
  popen_ok :: bool
  settle_exit :: "int option"
  settle_output :: "string \<times> string"
  settle_error :: "communicate_error option"
  wait_result :: "nat \<Rightarrow> int option"
  send_ok :: bool

text \<open>\<^verbatim>\<open>f"{v}"\<close> for a decoded value.\<close>

fun py_str :: "env \<Rightarrow> json \<Rightarrow> string" where
  "py_str e (JStr s) = s"
| "py_str e JNull = ''None''"
| "py_str e (JBool b) = (if b then ''True'' else ''False'')"
| "py_str e (JInt i) = str_of_int i"
| "py_str e v = format_value e v"

definition log_msg :: "level \<Rightarrow> string \<Rightarrow> state \<Rightarrow> state" where
  "log_msg l m st = st\<lparr>logged := logged st @ [(l, m)]\<rparr>"

definition create_task :: "task \<Rightarrow> state \<Rightarrow> state" where
  "create_task t st = st\<lparr>tasks := tasks st @ [t]\<rparr>"

text \<open>\<^verbatim>\<open>process.poll()\<close>: \<open>None\<close> while the process runs, its return code afterwards.\<close>

definition poll :: "state \<Rightarrow> nat \<Rightarrow> int option" where
  "poll st pid = (case proc_status (procs st ! pid) of Running \<Rightarrow> None | Exited rc \<Rightarrow> Some rc)"

definition set_status :: "nat \<Rightarrow> pstatus \<Rightarrow> state \<Rightarrow> state" where
  "set_status pid s st = st\<lparr>procs := (procs st)[pid := (procs st ! pid)\<lparr>proc_status := s\<rparr>]\<rparr>"

text \<open>\<^verbatim>\<open>subprocess.Popen(argv, ...)\<close>: a new running process and its handle.\<close>

definition popen :: "string list \<Rightarrow> role \<Rightarrow> state \<Rightarrow> nat \<times> state" where
  "popen argv r st =
     (length (procs st),
      st\<lparr>procs := procs st @ [\<lparr>proc_argv = argv, proc_role = r, proc_status = Running\<rparr>]\<rparr>)"

definition register :: "string \<Rightarrow> nat \<Rightarrow> state \<Rightarrow> state" where
  "register key pid st = st\<lparr>current_processes := AList.update key pid (current_processes st)\<rparr>"

text \<open>\<^verbatim>\<open>if key in self.current_processes: del self.current_processes[key]\<close>.\<close>

definition unregister :: "string \<Rightarrow> state \<Rightarrow> state" where
  "unregister key st = st\<lparr>current_processes := AList.delete key (current_processes st)\<rparr>"

text \<open>
  \<^verbatim>\<open>process.terminate()\<close>, then \<^verbatim>\<open>process.wait(timeout=10)\<close>, then \<^verbatim>\<open>process.kill()\<close> when
  the wait timed out; \<open>warn\<close> is the warning logged before the kill.
\<close>

definition terminate_wait_kill :: "env \<Rightarrow> nat \<Rightarrow> string \<Rightarrow> state \<Rightarrow> state" where
  "terminate_wait_kill e pid warn st =
     (case wait_result e pid of
        Some rc \<Rightarrow> set_status pid (Exited rc) st
      | None \<Rightarrow> set_status pid (Exited (- 9)) (log_msg WARNING warn st))"

text \<open>
  A \<^verbatim>\<open>try: ... except Exception as e: ...\<close> block around a computation: an exception that
  derives from \<^verbatim>\<open>Exception\<close> goes to the handler, any other propagates.
\<close>

definition catch_Exception ::
  "(exn + 'a) \<times> state \<Rightarrow> (exn \<Rightarrow> state \<Rightarrow> (exn + 'a) \<times> state) \<Rightarrow> (exn + 'a) \<times> state" where
  "catch_Exception r h =
     (case r of
        (Inl e, st) \<Rightarrow> if is_Exception e then h e st else (Inl e, st)
      | (Inr a, st) \<Rightarrow> (Inr a, st))"

section \<open>Connecting: \<^verbatim>\<open>CourtClient.connect\<close>\<close>

text \<open>
  \<^verbatim>\<open>
  max_retries = self.config.get('max_retries', 5)
  retry_delay = self.config.get('retry_delay', 5)
  for attempt in range(max_retries):
      try:
          self.logger.info(...)
          self.ws = await websockets.connect(uri, ...)
          ...
          return True
      except Exception as e:
          self.logger.error(f"Connection attempt {attempt + 1} failed: {e}")
          if attempt < max_retries - 1:
              self.logger.info(f"Retrying in {retry_delay} seconds...")
              await asyncio.sleep(retry_delay)
          else:
              self.logger.error("Max retries exceeded, giving up")
              return False
  \<close>
  \<open>attempts\<close> counts the calls of \<^verbatim>\<open>websockets.connect\<close>, \<open>slept\<close> lists the arguments of
  \<^verbatim>\<open>asyncio.sleep\<close>. \<open>ok k\<close> tells whether the call in iteration \<open>k\<close> succeeds. The result
  is the returned Python value: \<open>Some True\<close>, \<open>Some False\<close>, or \<open>None\<close> when the function
  ends without a \<^verbatim>\<open>return\<close>. \<^verbatim>\<open>server_host\<close> and \<^verbatim>\<open>server_port\<close> are read outside the
  \<^verbatim>\<open>try\<close>; \<^verbatim>\<open>load_config\<close> always sets them, and only their text enters the log.
\<close>

record link =
  attempts :: nat
  slept :: "int list"
  link_log :: "(level \<times> string) list"
  ws_open :: bool

definition link_msg :: "level \<Rightarrow> string \<Rightarrow> link \<Rightarrow> link" where
  "link_msg lv m l = l\<lparr>link_log := link_log l @ [(lv, m)]\<rparr>"

function connect_loop ::
  "string \<Rightarrow> int \<Rightarrow> int \<Rightarrow> (nat \<Rightarrow> bool) \<Rightarrow> nat \<Rightarrow> link \<Rightarrow> bool option \<times> link" where
  "connect_loop uri n delay ok attempt l =
     (if int attempt < n then
        let l1 = link_msg INFO (''Connecting to '' @ uri @ '' (attempt ''
                   @ str_of_nat (attempt + 1) @ ''/'' @ str_of_int n @ '')'') l;
            l2 = l1\<lparr>attempts := attempts l1 + 1\<rparr>
        in if ok attempt then
             (Some True,
              link_msg DEBUG ''Server-side ping/pong handling enabled (client ping disabled)''
                (link_msg INFO ''WebSocket connection established'' (l2\<lparr>ws_open := True\<rparr>)))
           else
             let l3 = link_msg ERROR (''Connection attempt '' @ str_of_nat (attempt + 1)
                        @ '' failed'') l2
             in if int attempt < n - 1 then
                  connect_loop uri n delay ok (attempt + 1)
                    ((link_msg INFO (''Retrying in '' @ str_of_int delay @ '' seconds...'') l3)
                       \<lparr>slept := slept l3 @ [delay]\<rparr>)
                else (Some False, link_msg ERROR ''Max retries exceeded, giving up'' l3)
      else (None, l))"
  by pat_completeness auto
termination
  by (relation "measure (\<lambda>(uri, n, delay, ok, attempt, l). nat (n - int attempt))") auto

declare connect_loop.simps [simp del]

definition config_max_retries :: "config \<Rightarrow> int" where
  "config_max_retries cfg = (case max_retries cfg of Some n \<Rightarrow> n | None \<Rightarrow> 5)"

definition config_retry_delay :: "config \<Rightarrow> int" where
  "config_retry_delay cfg = (case retry_delay cfg of Some d \<Rightarrow> d | None \<Rightarrow> 5)"

definition connect :: "string \<Rightarrow> config \<Rightarrow> (nat \<Rightarrow> bool) \<Rightarrow> link \<Rightarrow> bool option \<times> link" where
  "connect uri cfg ok l =
     connect_loop uri (config_max_retries cfg) (config_retry_delay cfg) ok 0 l"

definition initial_link :: link where
  "initial_link = \<lparr>attempts = 0, slept = [], link_log = [], ws_open = False\<rparr>"

section \<open>The source-feed probe: \<^verbatim>\<open>_test_rtsp_connection\<close>\<close>

text \<open>
  \<^verbatim>\<open>subprocess.run\<close> of \<^verbatim>\<open>ffprobe\<close> returns an exit code and its stderr text, times out, or
  fails to start; the function returns a boolean in every case. The text of a caught
  exception (\<^verbatim>\<open>{e}\<close> in a log message) is rendered by the exception's class name.
\<close>

definition test_rtsp_connection :: "config \<Rightarrow> env \<Rightarrow> state \<Rightarrow> bool \<times> state" where
  "test_rtsp_connection cfg e st =
     (case rtsp_url cfg of
        None \<Rightarrow> (False, log_msg ERROR (''RTSP connection test failed: '' @ exn_name KeyError) st)
      | Some url \<Rightarrow>
          let st1 = log_msg DEBUG
                ''Testing RTSP with: ffprobe -rtsp_transport tcp -v error -select_streams v:0 -show_entries stream=width,height -of csv=p=0 -timeout 10000000 [RTSP_URL]''
                st
          in case probe e of
               ProbeExit rc err \<Rightarrow>
                 if rc = 0 then (True, log_msg INFO ''RTSP connection test successful'' st1)
                 else
                   let st2 = log_msg ERROR (''RTSP connection test failed with code ''
                               @ str_of_int rc) st1
                   in (False,
                       if err \<noteq> [] then log_msg ERROR (''RTSP test error: '' @ py_strip err) st2
                       else st2)
             | ProbeTimeout \<Rightarrow> (False, log_msg ERROR ''RTSP connection test timed out'' st1)
             | ProbeError \<Rightarrow>
                 (False, log_msg ERROR (''RTSP connection test failed: '' @ exn_name OSError) st1))"

section \<open>Stopping: \<^verbatim>\<open>_handle_stop_record\<close> and \<^verbatim>\<open>_handle_stop_stream\<close>\<close>

text \<open>
  \<^verbatim>\<open>
  for key, process in list(self.current_processes.items()):
      if key.startswith('record_') and process.poll() is None:
          process.terminate()
          try: process.wait(timeout=10)
          except subprocess.TimeoutExpired: process.kill()
          del self.current_processes[key]
          stopped_count += 1
  return True
  \<close>
  The loop runs over a snapshot of the table's items.
\<close>

fun stop_record_loop :: "env \<Rightarrow> (string \<times> nat) list \<Rightarrow> nat \<Rightarrow> state \<Rightarrow> nat \<times> state" where
  "stop_record_loop e [] stopped_count st = (stopped_count, st)"
| "stop_record_loop e ((key, pid) # items) stopped_count st =
     (if startswith key ''record_'' \<and> poll st pid = None then
        let st1 = log_msg INFO (''Stopping recording process '' @ str_of_nat pid) st;
            st2 = terminate_wait_kill e pid
                    (''Force killing recording process '' @ str_of_nat pid) st1;
            st3 = unregister key st2
        in stop_record_loop e items (stopped_count + 1) st3
      else stop_record_loop e items stopped_count st)"

definition stop_record_try :: "env \<Rightarrow> json \<Rightarrow> state \<Rightarrow> (exn + bool) \<times> state" where
  "stop_record_try e data st =
     (let (stopped_count, st1) = stop_record_loop e (current_processes st) 0 st
      in (Inr True,
          log_msg INFO (''Stopped '' @ str_of_nat stopped_count @ '' recording processes'') st1))"

definition handle_stop_record :: "env \<Rightarrow> json \<Rightarrow> state \<Rightarrow> (exn + bool) \<times> state" where
  "handle_stop_record e data st =
     catch_Exception (stop_record_try e data st)
       (\<lambda>x st'. (Inr False, log_msg ERROR (''Failed to stop recording: '' @ exn_name x) st'))"

text \<open>
  \<^verbatim>\<open>
  if 'live_stream' in self.current_processes:
      process = self.current_processes['live_stream']
      if process.poll() is None:
          process.terminate()
          try: process.wait(timeout=10)
          except subprocess.TimeoutExpired: process.kill()
          del self.current_processes['live_stream']
          return True
  self.logger.warning("No active live stream to stop")
  return True
  \<close>
\<close>

definition stop_stream_try :: "env \<Rightarrow> json \<Rightarrow> state \<Rightarrow> (exn + bool) \<times> state" where
  "stop_stream_try e data st =
     (case map_of (current_processes st) ''live_stream'' of
        Some pid \<Rightarrow>
          if poll st pid = None then
            let st1 = log_msg INFO (''Stopping live stream process '' @ str_of_nat pid) st;
                st2 = terminate_wait_kill e pid
                        (''Force killing stream process '' @ str_of_nat pid) st1;
                st3 = unregister ''live_stream'' st2
            in (Inr True, log_msg INFO ''Live stream stopped'' st3)
          else (Inr True, log_msg WARNING ''No active live stream to stop'' st)
      | None \<Rightarrow> (Inr True, log_msg WARNING ''No active live stream to stop'' st))"

definition handle_stop_stream :: "env \<Rightarrow> json \<Rightarrow> state \<Rightarrow> (exn + bool) \<times> state" where
  "handle_stop_stream e data st =
     catch_Exception (stop_stream_try e data st)
       (\<lambda>x st'. (Inr False, log_msg ERROR (''Failed to stop live stream: '' @ exn_name x) st'))"

section \<open>Starting a capture: \<^verbatim>\<open>_handle_start_record\<close>\<close>

definition config_recordings_dir :: "config \<Rightarrow> string" where
  "config_recordings_dir cfg = (case recordings_dir cfg of Some d \<Rightarrow> d | None \<Rightarrow> ''recordings'')"

text \<open>
  \<^verbatim>\<open>output_file = os.path.join(recordings_dir, f"record_{timestamp}_{user_id}.mp4")\<close>
\<close>

definition record_output_file :: "config \<Rightarrow> env \<Rightarrow> json \<Rightarrow> string" where
  "record_output_file cfg e user_id =
     os_path_join (config_recordings_dir cfg)
       (''record_'' @ timestamp e @ ''_'' @ py_str e user_id @ ''.mp4'')"

text \<open>
  The second half of the handler, from the encoder check on: the check that \<^verbatim>\<open>ffmpeg\<close>
  runs, the probe, \<^verbatim>\<open>Popen\<close>, the registration under \<^verbatim>\<open>record_<timestamp>\<close>, the settle sleep
  of two seconds (during which the new process may end), and the test of \<^verbatim>\<open>poll()\<close>.
  When the process has ended, \<^verbatim>\<open>process.communicate()\<close> is called first; an error it raises
  goes to the handler's \<^verbatim>\<open>except\<close> clause, past the failure lines and the \<^verbatim>\<open>del\<close>.
\<close>

definition settle_sleep :: "env \<Rightarrow> nat \<Rightarrow> state \<Rightarrow> state" where
  "settle_sleep e pid st =
     (case settle_exit e of None \<Rightarrow> st | Some rc \<Rightarrow> set_status pid (Exited rc) st)"

definition log_immediate_failure :: "string \<Rightarrow> env \<Rightarrow> int \<Rightarrow> state \<Rightarrow> state" where
  "log_immediate_failure what e rc st =
     (let st1 = log_msg ERROR (what @ '' process failed immediately:'') st;
          st2 = log_msg ERROR (''Return code: '' @ str_of_int rc) st1;
          st3 = (if fst (settle_output e) \<noteq> []
                 then log_msg ERROR (''STDOUT: '' @ fst (settle_output e)) st2 else st2)
      in if snd (settle_output e) \<noteq> []
         then log_msg ERROR (''STDERR: '' @ snd (settle_output e)) st3 else st3)"

definition record_launch ::
  "config \<Rightarrow> env \<Rightarrow> string list \<Rightarrow> state \<Rightarrow> (exn + bool) \<times> state" where
  "record_launch cfg e ffmpeg_cmd st =
     (if \<not> ffmpeg_ok e then
        (Inr False, log_msg ERROR (''FFmpeg not available: '' @ exn_name OSError) st)
      else
        let st1 = log_msg INFO ''Testing RTSP connection...''
                    (log_msg INFO ''FFmpeg is available'' st);
            (test_result, st2) = test_rtsp_connection cfg e st1
        in if \<not> test_result then
             (Inr False, log_msg ERROR ''RTSP connection test failed, aborting recording'' st2)
           else
             let st3 = log_msg INFO ''Starting recording process...'' st2
             in if \<not> popen_ok e then (Inl OSError, st3)
                else
                  let (pid, st4) = popen ffmpeg_cmd Capture st3;
                      process_key = ''record_'' @ timestamp e;
                      st5 = register process_key pid st4;
                      st6 = settle_sleep e pid st5
                  in case poll st6 pid of
                       None \<Rightarrow>
                         (Inr True,
                          create_task (MonitorFfmpeg pid process_key)
                            (log_msg INFO (''Recording started successfully with PID ''
                               @ str_of_nat pid) st6))
                     | Some rc \<Rightarrow>
                         (case settle_error e of
                            Some x \<Rightarrow> (Inl (communicate_exn x), st6)
                          | None \<Rightarrow>
                              (Inr False,
                               unregister process_key
                                 (log_immediate_failure ''Recording'' e rc st6))))"

definition start_record_try ::
  "config \<Rightarrow> env \<Rightarrow> json \<Rightarrow> state \<Rightarrow> (exn + bool) \<times> state" where
  "start_record_try cfg e data st =
     (let st1 = log_msg INFO ''=== START_RECORD handler called ==='' st
      in case py_get data ''meta'' (JObj []) of Inl x \<Rightarrow> (Inl x, st1) | Inr meta \<Rightarrow>
         case py_get meta ''duration'' (JInt 1800) of Inl x \<Rightarrow> (Inl x, st1) | Inr duration \<Rightarrow>
         case py_get meta ''quality'' (JStr ''1080p'') of Inl x \<Rightarrow> (Inl x, st1) | Inr quality \<Rightarrow>
         let st2 = log_msg INFO (''Recording parameters - duration: '' @ py_str e duration
                     @ ''s, quality: '' @ py_str e quality) st1
         in if \<not> makedirs_ok e then (Inl OSError, st2)
            else
              let st3 = log_msg INFO (''Recordings directory: '' @ config_recordings_dir cfg) st2
              in case py_get data ''by'' (JStr ''unknown'') of Inl x \<Rightarrow> (Inl x, st3) | Inr user_id \<Rightarrow>
                 let output_file = record_output_file cfg e user_id;
                     st4 = log_msg INFO (''Output file: '' @ output_file) st3
                 in case rtsp_url cfg of None \<Rightarrow> (Inl KeyError, st4) | Some url \<Rightarrow>
                    let st5 = log_msg INFO (''RTSP URL: '' @ url) st4
                    in case duration_str duration of Inl x \<Rightarrow> (Inl x, st5) | Inr dstr \<Rightarrow>
                       let ffmpeg_cmd = record_ffmpeg_cmd url quality dstr output_file;
                           st6 = log_msg INFO (''FFmpeg command: '' @ join_words ffmpeg_cmd) st5
                       in record_launch cfg e ffmpeg_cmd st6)"

definition handle_start_record ::
  "config \<Rightarrow> env \<Rightarrow> json \<Rightarrow> state \<Rightarrow> (exn + bool) \<times> state" where
  "handle_start_record cfg e data st =
     catch_Exception (start_record_try cfg e data st)
       (\<lambda>x st'. (Inr False,
          log_msg ERROR (''Traceback: '' @ exn_name x)
            (log_msg ERROR (''Failed to start recording: '' @ exn_name x) st')))"

section \<open>Starting a broadcast: \<^verbatim>\<open>_handle_start_stream\<close>\<close>

text \<open>
  \<^verbatim>\<open>stream_key = meta.get('stream_key', self.config.get('youtube_stream_key'))\<close>: the
  configured key is the default of the lookup, used only when \<^verbatim>\<open>meta\<close> has no such key.
\<close>

definition config_stream_key :: "config \<Rightarrow> json" where
  "config_stream_key cfg = (case youtube_stream_key cfg of Some k \<Rightarrow> JStr k | None \<Rightarrow> JNull)"

text \<open>
  \<^verbatim>\<open>f"Using stream key: {stream_key[:10]}..." if stream_key else "No stream key"\<close>: a
  string and a list can be sliced; a true number cannot (\<^verbatim>\<open>TypeError\<close>), nor can a
  dictionary (\<^verbatim>\<open>TypeError\<close>, or \<^verbatim>\<open>KeyError\<close> from Python 3.12 on; both derive from
  \<^verbatim>\<open>Exception\<close>).
\<close>

fun stream_key_message :: "env \<Rightarrow> json \<Rightarrow> exn + string" where
  "stream_key_message e (JStr k) =
     Inr (if k \<noteq> [] then ''Using stream key: '' @ take 10 k @ ''...'' else ''No stream key'')"
| "stream_key_message e (JArr xs) =
     Inr (if xs \<noteq> [] then ''Using stream key: '' @ format_value e (JArr (take 10 xs)) @ ''...''
          else ''No stream key'')"
| "stream_key_message e v = (if py_truthy v then Inl TypeError else Inr ''No stream key'')"

definition stream_ffmpeg_cmd :: "string \<Rightarrow> string \<Rightarrow> string list" where
  "stream_ffmpeg_cmd url stream_url =
     [''ffmpeg'',
      ''-rtsp_transport'', ''tcp'',
      ''-i'', url,
      ''-vcodec'', ''libx264'',
      ''-preset'', ''veryfast'',
      ''-tune'', ''zerolatency'',
      ''-maxrate'', ''3000k'',
      ''-bufsize'', ''6000k'',
      ''-g'', ''50'',
      ''-acodec'', ''aac'',
      ''-b:a'', ''128k'',
      ''-ar'', ''44100'',
      ''-f'', ''flv'',
      stream_url]"

text \<open>
  The handler up to its settle sleep ends in one of two ways: it has returned a boolean, or
  it has launched and registered a process and is about to sleep.
\<close>

datatype launch = Returned bool | Launched nat

definition stream_launch ::
  "config \<Rightarrow> env \<Rightarrow> json \<Rightarrow> state \<Rightarrow> (exn + launch) \<times> state" where
  "stream_launch cfg e stream_key st =
     (let stream_url = ''rtmp://a.rtmp.youtube.com/live2/'' @ py_str e stream_key;
          st1 = log_msg INFO (''Stream URL: '' @ take 50 stream_url @ ''...'') st
      in case rtsp_url cfg of None \<Rightarrow> (Inl KeyError, st1) | Some url \<Rightarrow>
         let st2 = log_msg INFO (''RTSP URL: '' @ url) st1;
             ffmpeg_cmd = stream_ffmpeg_cmd url stream_url;
             st3 = log_msg INFO (''FFmpeg streaming command: ''
                     @ join_words (butlast ffmpeg_cmd) @ '' [STREAM_URL]'') st2
         in if \<not> ffmpeg_ok e then
              (Inr (Returned False),
               log_msg ERROR (''FFmpeg not available: '' @ exn_name OSError) st3)
            else
              let st4 = log_msg INFO ''Testing RTSP connection...''
                          (log_msg INFO ''FFmpeg is available'' st3);
                  (test_result, st5) = test_rtsp_connection cfg e st4
              in if \<not> test_result then
                   (Inr (Returned False),
                    log_msg ERROR ''RTSP connection test failed, aborting stream'' st5)
                 else
                   let st6 = log_msg INFO ''Starting live stream process...'' st5
                   in if \<not> popen_ok e then (Inl OSError, st6)
                      else
                        let (pid, st7) = popen ffmpeg_cmd Broadcast st6
                        in (Inr (Launched pid), register ''live_stream'' pid st7))"

text \<open>
  \<^verbatim>\<open>
  if 'live_stream' in self.current_processes:
      await self._handle_stop_stream({})
  \<close>
\<close>

definition stop_existing_stream :: "env \<Rightarrow> state \<Rightarrow> (exn + bool) \<times> state" where
  "stop_existing_stream e st =
     (if map_of (current_processes st) ''live_stream'' \<noteq> None
      then handle_stop_stream e (JObj []) st else (Inr True, st))"

definition start_stream_launch ::
  "config \<Rightarrow> env \<Rightarrow> json \<Rightarrow> state \<Rightarrow> (exn + launch) \<times> state" where
  "start_stream_launch cfg e data st =
     (let st1 = log_msg INFO ''=== START_STREAM handler called ==='' st
      in case py_get data ''meta'' (JObj []) of Inl x \<Rightarrow> (Inl x, st1) | Inr meta \<Rightarrow>
         case py_get meta ''platform'' (JStr ''youtube'') of Inl x \<Rightarrow> (Inl x, st1) | Inr platform \<Rightarrow>
         case py_get meta ''stream_key'' (config_stream_key cfg) of
           Inl x \<Rightarrow> (Inl x, st1)
         | Inr stream_key \<Rightarrow>
         let st2 = log_msg INFO (''Stream parameters - platform: '' @ py_str e platform) st1
         in case stream_key_message e stream_key of Inl x \<Rightarrow> (Inl x, st2) | Inr msg \<Rightarrow>
            let st3 = log_msg INFO msg st2
            in if \<not> py_truthy stream_key then
                 (Inr (Returned False),
                  log_msg ERROR ''No stream key provided for live streaming'' st3)
               else
                 case stop_existing_stream e st3 of
                   (Inl x, st4) \<Rightarrow> (Inl x, st4)
                 | (Inr stopped, st4) \<Rightarrow>
                     if platform = JStr ''youtube'' then stream_launch cfg e stream_key st4
                     else
                       (Inr (Returned False),
                        log_msg ERROR (''Unsupported streaming platform: '' @ py_str e platform)
                          st4))"

text \<open>
  The handler after its sleep of three seconds. As in \<open>record_launch\<close>, an error raised by
  \<^verbatim>\<open>process.communicate()\<close> leaves the \<^verbatim>\<open>try\<close> body before the \<^verbatim>\<open>del\<close>.
\<close>

definition start_stream_settle :: "env \<Rightarrow> nat \<Rightarrow> state \<Rightarrow> (exn + bool) \<times> state" where
  "start_stream_settle e pid st =
     (case poll st pid of
        None \<Rightarrow>
          (Inr True,
           create_task (MonitorStream pid)
             (log_msg INFO (''Live stream started successfully with PID '' @ str_of_nat pid) st))
      | Some rc \<Rightarrow>
          (case settle_error e of
             Some x \<Rightarrow> (Inl (communicate_exn x), st)
           | None \<Rightarrow>
               (Inr False,
                unregister ''live_stream'' (log_immediate_failure ''Streaming'' e rc st))))"

text \<open>
  \<^verbatim>\<open>await asyncio.sleep(3)\<close> suspends the handler; \<open>during_sleep pid\<close> is what happens to the
  state until it resumes (\<open>pid\<close> is the process just launched). In
  \<open>handle_start_stream\<close> nothing happens but the new process possibly ending
  (\<open>settle_sleep\<close>); \<open>handle_start_stream_during\<close> lets other tasks of the event loop run
  there.
\<close>

definition start_stream_try ::
  "(nat \<Rightarrow> state \<Rightarrow> state) \<Rightarrow> config \<Rightarrow> env \<Rightarrow> json \<Rightarrow> state \<Rightarrow> (exn + bool) \<times> state" where
  "start_stream_try during_sleep cfg e data st =
     (case start_stream_launch cfg e data st of
        (Inl x, st1) \<Rightarrow> (Inl x, st1)
      | (Inr (Returned b), st1) \<Rightarrow> (Inr b, st1)
      | (Inr (Launched pid), st1) \<Rightarrow> start_stream_settle e pid (during_sleep pid st1))"

definition handle_start_stream_during ::
  "(nat \<Rightarrow> state \<Rightarrow> state) \<Rightarrow> config \<Rightarrow> env \<Rightarrow> json \<Rightarrow> state \<Rightarrow> (exn + bool) \<times> state" where
  "handle_start_stream_during during_sleep cfg e data st =
     catch_Exception (start_stream_try during_sleep cfg e data st)
       (\<lambda>x st'. (Inr False,
          log_msg ERROR (''Traceback: '' @ exn_name x)
            (log_msg ERROR (''Failed to start live stream: '' @ exn_name x) st')))"

definition handle_start_stream ::
  "config \<Rightarrow> env \<Rightarrow> json \<Rightarrow> state \<Rightarrow> (exn + bool) \<times> state" where
  "handle_start_stream cfg e data st =
     handle_start_stream_during (settle_sleep e) cfg e data st"

section \<open>The diagnostic commands: \<^verbatim>\<open>_handle_test_record\<close> and \<^verbatim>\<open>_handle_test_stream\<close>\<close>

text \<open>
  \<^verbatim>\<open>output_file = os.path.join(recordings_dir, f"test_record_{timestamp}_{user_id}.txt")\<close>
  for the diagnostic capture, and for the diagnostic broadcast
  \<^verbatim>\<open>
  logs_dir = os.path.join(self.config.get('recordings_dir', 'recordings'), 'logs')
  output_file = os.path.join(logs_dir, f"test_stream_{timestamp}_{platform}.log")
  \<close>
\<close>

definition test_record_output_file :: "config \<Rightarrow> env \<Rightarrow> json \<Rightarrow> string" where
  "test_record_output_file cfg e user_id =
     os_path_join (config_recordings_dir cfg)
       (''test_record_'' @ timestamp e @ ''_'' @ py_str e user_id @ ''.txt'')"

definition test_stream_output_file :: "config \<Rightarrow> env \<Rightarrow> json \<Rightarrow> string" where
  "test_stream_output_file cfg e platform =
     os_path_join (os_path_join (config_recordings_dir cfg) ''logs'')
       (''test_stream_'' @ timestamp e @ ''_'' @ py_str e platform @ ''.log'')"

definition quote :: string where
  "quote = [CHR 0x27]"

definition test_record_cmd :: "env \<Rightarrow> json \<Rightarrow> string \<Rightarrow> string list" where
  "test_record_cmd e duration output_file =
     [''bash'', ''-c'',
      ''echo '' @ quote @ ''Test recording started at '' @ isoformat_first e @ quote
        @ '' > '' @ quote @ output_file @ quote @ '' && ''
        @ ''for i in {1..'' @ py_str e duration @ ''}; do ''
        @ ''echo '' @ quote @ ''Recording frame $i at'' @ quote @ '' $(date) >> ''
        @ quote @ output_file @ quote @ ''; ''
        @ ''sleep 1; ''
        @ ''done && ''
        @ ''echo '' @ quote @ ''Test recording completed at '' @ isoformat_second e @ quote
        @ '' >> '' @ quote @ output_file @ quote]"

definition test_stream_cmd :: "env \<Rightarrow> json \<Rightarrow> string \<Rightarrow> string list" where
  "test_stream_cmd e platform output_file =
     [''bash'', ''-c'',
      ''echo '' @ quote @ ''Test stream to '' @ py_str e platform @ '' started at ''
        @ isoformat_first e @ quote @ '' > '' @ quote @ output_file @ quote @ '' && ''
        @ ''while true; do ''
        @ ''echo '' @ quote @ ''Streaming frame at'' @ quote @ '' $(date) >> ''
        @ quote @ output_file @ quote @ ''; ''
        @ ''sleep 2; ''
        @ ''done'']"

definition test_record_try ::
  "config \<Rightarrow> env \<Rightarrow> json \<Rightarrow> state \<Rightarrow> (exn + bool) \<times> state" where
  "test_record_try cfg e data st =
     (case py_get data ''meta'' (JObj []) of Inl x \<Rightarrow> (Inl x, st) | Inr meta \<Rightarrow>
      case py_get meta ''duration'' (JInt 30) of Inl x \<Rightarrow> (Inl x, st) | Inr duration \<Rightarrow>
      case py_get meta ''quality'' (JStr ''1080p'') of Inl x \<Rightarrow> (Inl x, st) | Inr quality \<Rightarrow>
      if \<not> makedirs_ok e then (Inl OSError, st)
      else
        case py_get data ''by'' (JStr ''unknown'') of Inl x \<Rightarrow> (Inl x, st) | Inr user_id \<Rightarrow>
        let output_file = test_record_output_file cfg e user_id;
            test_cmd = test_record_cmd e duration output_file;
            st1 = log_msg INFO (''Starting test recording: '' @ output_file) st
        in if \<not> popen_ok e then (Inl OSError, st1)
           else
             let (pid, st2) = popen test_cmd DiagnosticCapture st1;
                 process_key = ''test_record_'' @ timestamp e;
                 st3 = register process_key pid st2
             in (Inr True,
                 log_msg INFO (''Test recording started with PID '' @ str_of_nat pid) st3))"

definition handle_test_record ::
  "config \<Rightarrow> env \<Rightarrow> json \<Rightarrow> state \<Rightarrow> (exn + bool) \<times> state" where
  "handle_test_record cfg e data st =
     catch_Exception (test_record_try cfg e data st)
       (\<lambda>x st'. (Inr False,
          log_msg ERROR (''Failed to start test recording: '' @ exn_name x) st'))"

definition test_stream_try ::
  "config \<Rightarrow> env \<Rightarrow> json \<Rightarrow> state \<Rightarrow> (exn + bool) \<times> state" where
  "test_stream_try cfg e data st =
     (case py_get data ''meta'' (JObj []) of Inl x \<Rightarrow> (Inl x, st) | Inr meta \<Rightarrow>
      case py_get meta ''platform'' (JStr ''youtube'') of Inl x \<Rightarrow> (Inl x, st) | Inr platform \<Rightarrow>
      if \<not> makedirs_ok e then (Inl OSError, st)
      else
        let output_file = test_stream_output_file cfg e platform;
            test_cmd = test_stream_cmd e platform output_file;
            st1 = log_msg INFO (''Starting test stream to '' @ py_str e platform @ '': ''
                    @ output_file) st
        in if \<not> popen_ok e then (Inl OSError, st1)
           else
             let (pid, st2) = popen test_cmd DiagnosticBroadcast st1;
                 st3 = register ''test_stream'' pid st2
             in (Inr True,
                 log_msg INFO (''Test stream started with PID '' @ str_of_nat pid) st3))"

definition handle_test_stream ::
  "config \<Rightarrow> env \<Rightarrow> json \<Rightarrow> state \<Rightarrow> (exn + bool) \<times> state" where
  "handle_test_stream cfg e data st =
     catch_Exception (test_stream_try cfg e data st)
       (\<lambda>x st'. (Inr False,
          log_msg ERROR (''Failed to start test stream: '' @ exn_name x) st'))"

section \<open>The monitor tasks\<close>

text \<open>
  One iteration of a monitor's polling loop happens while \<^verbatim>\<open>process.poll()\<close> is \<open>None\<close>; it
  reads at most one line of the process's stderr: nothing is ready or the line is empty
  (\<open>NoLine\<close>), a line (\<open>Line\<close>), or the read raises (\<open>ReadFailed\<close>, caught inside the loop).
  The loop function runs over the iterations a monitor made and tells whether it left the
  loop by \<^verbatim>\<open>break\<close>.
\<close>

datatype stderr_read = NoLine | Line string | ReadFailed

definition failure_keywords :: "string list" where
  "failure_keywords = [''error'', ''failed'', ''invalid'', ''timeout'']"

definition has_failure_keyword :: "string \<Rightarrow> bool" where
  "has_failure_keyword line = list_ex (\<lambda>keyword. py_in keyword (py_lower line)) failure_keywords"

fun monitor_ffmpeg_loop :: "stderr_read list \<Rightarrow> state \<Rightarrow> bool \<times> state" where
  "monitor_ffmpeg_loop [] st = (False, st)"
| "monitor_ffmpeg_loop (NoLine # reads) st = monitor_ffmpeg_loop reads st"
| "monitor_ffmpeg_loop (ReadFailed # reads) st =
     monitor_ffmpeg_loop reads
       (log_msg DEBUG (''Error reading FFmpeg stderr: '' @ exn_name OSError) st)"
| "monitor_ffmpeg_loop (Line raw # reads) st =
     (if raw = [] then monitor_ffmpeg_loop reads st
      else
        let line = py_strip raw
        in if has_failure_keyword line then
             monitor_ffmpeg_loop reads (log_msg ERROR (''FFmpeg error: '' @ line) st)
           else if py_in ''Input/output error'' line then
             (True, log_msg ERROR (''FFmpeg I/O error: '' @ line) st)
           else monitor_ffmpeg_loop reads st)"


text \<open>
  After the loop:
  \<^verbatim>\<open>
  try:
      ...
      return_code = process.returncode
      if return_code != 0:
          try:
              stdout, stderr = process.communicate(timeout=5)
              if stderr:
                  self.logger.error(f"FFmpeg process {process_key} failed with code {return_code}")
                  self.logger.error(f"Final stderr: {stderr}")
          except subprocess.TimeoutExpired:
              self.logger.error(f"FFmpeg process {process_key} failed and timed out during cleanup")
      else:
          self.logger.info(f"FFmpeg process {process_key} completed successfully")
      if process_key in self.current_processes:
          del self.current_processes[process_key]
  except Exception as e:
      self.logger.error(f"Error monitoring FFmpeg process {process_key}: {e}")
  \<close>
  \<^verbatim>\<open>communicate\<close> returns the remaining output, times out, or raises another error. The
  inner \<^verbatim>\<open>except\<close> catches the timeout only: another error leaves the \<^verbatim>\<open>try\<close> body before
  the \<^verbatim>\<open>del\<close> and is logged by the outer \<^verbatim>\<open>except\<close>. \<open>monitor_ffmpeg_report\<close> is the body
  down to the \<^verbatim>\<open>else\<close> branch, \<open>monitor_ffmpeg_exit\<close> adds the \<^verbatim>\<open>del\<close> and the outer
  \<^verbatim>\<open>except\<close>.
\<close>

datatype communicate_result =
    Communicated string string
  | CommunicateTimeout
  | CommunicateRaised communicate_error

definition returncode_text :: "int option \<Rightarrow> string" where
  "returncode_text rc = (case rc of None \<Rightarrow> ''None'' | Some c \<Rightarrow> str_of_int c)"

definition monitor_ffmpeg_report ::
  "string \<Rightarrow> int option \<Rightarrow> communicate_result \<Rightarrow> state \<Rightarrow> (exn + unit) \<times> state" where
  "monitor_ffmpeg_report process_key return_code comm st =
     (if return_code \<noteq> Some 0 then
        (case comm of
           Communicated out err \<Rightarrow>
             (Inr (),
              if err \<noteq> [] then
                log_msg ERROR (''Final stderr: '' @ err)
                  (log_msg ERROR (''FFmpeg process '' @ process_key @ '' failed with code ''
                     @ returncode_text return_code) st)
              else st)
         | CommunicateTimeout \<Rightarrow>
             (Inr (),
              log_msg ERROR (''FFmpeg process '' @ process_key
                @ '' failed and timed out during cleanup'') st)
         | CommunicateRaised x \<Rightarrow> (Inl (communicate_exn x), st))
      else
        (Inr (),
         log_msg INFO (''FFmpeg process '' @ process_key @ '' completed successfully'') st))"

definition monitor_ffmpeg_exit ::
  "string \<Rightarrow> int option \<Rightarrow> communicate_result \<Rightarrow> state \<Rightarrow> state" where
  "monitor_ffmpeg_exit process_key return_code comm st =
     (case monitor_ffmpeg_report process_key return_code comm st of
        (Inr u, st1) \<Rightarrow> unregister process_key st1
      | (Inl x, st1) \<Rightarrow>
          log_msg ERROR (''Error monitoring FFmpeg process '' @ process_key @ '': ''
            @ exn_name x) st1)"



text \<open>
  A whole monitor task: the polling iterations \<open>reads\<close>, then the exit report and the cleanup.
  When the iterations are used up without a \<^verbatim>\<open>break\<close> and the process still runs, the task
  is still polling and has not returned: \<open>None\<close>.
\<close>

definition monitor_ffmpeg_process ::
  "nat \<Rightarrow> string \<Rightarrow> stderr_read list \<Rightarrow> communicate_result \<Rightarrow> state \<Rightarrow> state option" where
  "monitor_ffmpeg_process pid process_key reads comm st =
     (let (broke, st1) = monitor_ffmpeg_loop reads st
      in if \<not> broke \<and> poll st1 pid = None then None
         else Some (monitor_ffmpeg_exit process_key (poll st1 pid) comm st1))"


text \<open>A process ends on its own with return code \<open>rc\<close>.\<close>

definition process_exits :: "nat \<Rightarrow> int \<Rightarrow> state \<Rightarrow> state" where
  "process_exits pid rc st = set_status pid (Exited rc) st"

section \<open>The command router: \<^verbatim>\<open>handle_message\<close> and the receive loop of \<^verbatim>\<open>run\<close>\<close>

definition dispatch ::
  "config \<Rightarrow> env \<Rightarrow> json \<Rightarrow> json \<Rightarrow> state \<Rightarrow> (exn + bool) \<times> state" where
  "dispatch cfg e command data st =
     (if command = JStr ''START_RECORD'' then handle_start_record cfg e data st
      else if command = JStr ''STOP_RECORD'' then handle_stop_record e data st
      else if command = JStr ''START_STREAM'' then handle_start_stream cfg e data st
      else if command = JStr ''STOP_STREAM'' then handle_stop_stream e data st
      else if command = JStr ''TEST_RECORD'' then handle_test_record cfg e data st
      else if command = JStr ''TEST_STREAM'' then handle_test_stream cfg e data st
      else (Inr False, log_msg WARNING (''Unknown command: '' @ py_str e command) st))"

text \<open>The acknowledgment object handed to \<^verbatim>\<open>json.dumps\<close>.\<close>

definition ack_message :: "env \<Rightarrow> json \<Rightarrow> json \<Rightarrow> bool \<Rightarrow> json" where
  "ack_message e command_id command success =
     JObj ([(''commandId'', command_id), (''success'', JBool success)]
           @ (if \<not> success
              then [(''error'', JStr (''Failed to execute command: '' @ py_str e command))]
              else []))"

text \<open>
  \<open>loads\<close> is \<^verbatim>\<open>json.loads\<close>: the decoded value, or \<open>None\<close> when it raises
  \<^verbatim>\<open>JSONDecodeError\<close>. \<^verbatim>\<open>self.ws.send\<close> raises \<^verbatim>\<open>ConnectionClosed\<close> when \<open>send_ok\<close> is false.
\<close>

definition handle_message_try ::
  "(string \<Rightarrow> json option) \<Rightarrow> config \<Rightarrow> env \<Rightarrow> string \<Rightarrow> state \<Rightarrow> (exn + unit) \<times> state" where
  "handle_message_try loads cfg e message st =
     (case loads message of
        None \<Rightarrow> (Inl JSONDecodeError, st)
      | Some data \<Rightarrow>
          case py_get data ''commandId'' JNull of Inl x \<Rightarrow> (Inl x, st) | Inr command_id \<Rightarrow>
          case py_get data ''cmd'' JNull of Inl x \<Rightarrow> (Inl x, st) | Inr command \<Rightarrow>
          let st1 = log_msg INFO (''Received command: '' @ py_str e command @ '' (ID: ''
                      @ py_str e command_id @ '')'') st;
              st2 = log_msg DEBUG (''Full message data: '' @ format_value e data) st1
          in case dispatch cfg e command data st2 of
               (Inl x, st3) \<Rightarrow> (Inl x, st3)
             | (Inr success, st3) \<Rightarrow>
                 if py_truthy command_id then
                   if send_ok e then
                     (Inr (),
                      log_msg INFO (''Sent ACK for command '' @ py_str e command_id @ '': ''
                          @ (if success then ''success'' else ''failed''))
                        (st3\<lparr>sent := sent st3 @ [ack_message e command_id command success]\<rparr>))
                   else (Inl ConnectionClosed, st3)
                 else (Inr (), st3))"

definition handle_message ::
  "(string \<Rightarrow> json option) \<Rightarrow> config \<Rightarrow> env \<Rightarrow> string \<Rightarrow> state \<Rightarrow> (exn + unit) \<times> state" where
  "handle_message loads cfg e message st =
     (case handle_message_try loads cfg e message st of
        (Inr u, st1) \<Rightarrow> (Inr u, st1)
      | (Inl x, st1) \<Rightarrow>
          if x = JSONDecodeError then
            (Inr (), log_msg ERROR (''Invalid message format: '' @ exn_name x) st1)
          else if is_Exception x then
            (Inr (), log_msg ERROR (''Error handling message: '' @ exn_name x) st1)
          else (Inl x, st1))"

text \<open>
  The loop of \<^verbatim>\<open>run\<close> over the frames the connection delivers, each with the environment of
  its handling:
  \<^verbatim>\<open>
  async for message in self.ws:
      if not self.running: break
      if isinstance(message, str): await self.handle_message(message)
      elif isinstance(message, bytes): self.logger.warning(...)
  \<close>
  The result is \<open>Inl x\<close> when an exception \<open>x\<close> left the loop body, which ends the loop.
\<close>

datatype ws_frame = TextFrame string | BinaryFrame nat

fun receive_loop ::
  "(string \<Rightarrow> json option) \<Rightarrow> config \<Rightarrow> (env \<times> ws_frame) list \<Rightarrow> state \<Rightarrow> (exn + unit) \<times> state" where
  "receive_loop loads cfg [] st = (Inr (), st)"
| "receive_loop loads cfg ((e, TextFrame message) # frames) st =
     (if \<not> running st then (Inr (), st)
      else
        case handle_message loads cfg e message st of
          (Inl x, st1) \<Rightarrow> (Inl x, st1)
        | (Inr u, st1) \<Rightarrow> receive_loop loads cfg frames st1)"
| "receive_loop loads cfg ((e, BinaryFrame n) # frames) st =
     (if \<not> running st then (Inr (), st)
      else
        receive_loop loads cfg frames
          (log_msg WARNING (''Received unexpected binary message: '' @ str_of_nat n @ '' bytes'')
             st))"

section \<open>Sample inputs\<close>

text \<open>A configuration and an environment in which every external call succeeds.\<close>

definition sample_config :: config where
  "sample_config =
     \<lparr>max_retries = Some 5, retry_delay = Some 5,
      rtsp_url = Some ''rtsp://camera/Streaming/Channels/101'',
      youtube_stream_key = Some '''', recordings_dir = Some ''recordings''\<rparr>"

definition sample_env :: env where
  "sample_env =
     \<lparr>timestamp = ''20240101_120000'',
      isoformat_first = ''2024-01-01T12:00:00'',
      isoformat_second = ''2024-01-01T12:00:00'',
      format_value = (\<lambda>v. ''?''),
      makedirs_ok = True, ffmpeg_ok = True, probe = ProbeExit 0 '''', popen_ok = True,
      settle_exit = None, settle_output = ('''', ''''), settle_error = None,
      wait_result = (\<lambda>pid. Some (- 15)), send_ok = True\<rparr>"

definition stop_stream_fields :: "json \<Rightarrow> (string \<times> json) list" where
  "stop_stream_fields command_id = [(''commandId'', command_id), (''cmd'', JStr ''STOP_STREAM'')]"

text \<open>The state in which \<^verbatim>\<open>_handle_start_stream\<close> returns when the stream key is missing.\<close>

definition no_stream_key_state :: "env \<Rightarrow> (string \<times> json) list \<Rightarrow> state \<Rightarrow> state" where
  "no_stream_key_state e meta st =
     log_msg ERROR ''No stream key provided for live streaming''
       (log_msg INFO ''No stream key''
          (log_msg INFO (''Stream parameters - platform: ''
               @ py_str e (dict_get meta ''platform'' (JStr ''youtube'')))
             (log_msg INFO ''=== START_STREAM handler called ==='' st)))"

text \<open>
  The fields of a \<^verbatim>\<open>START_STREAM\<close> frame
  \<^verbatim>\<open>{"commandId": "c3", "cmd": "START_STREAM", "by": "u1", "meta": ...}\<close>.
\<close>

definition start_stream_fields :: "(string \<times> json) list \<Rightarrow> (string \<times> json) list" where
  "start_stream_fields meta =
     [(''commandId'', JStr ''c3''), (''cmd'', JStr ''START_STREAM''), (''by'', JStr ''u1''),
      (''meta'', JObj meta)]"

text \<open>
  No capture is running: no table entry with a key starting with \<^verbatim>\<open>record_\<close> holds a running
  process. No broadcast is running: the slot \<^verbatim>\<open>live_stream\<close> is empty or its process has ended.
\<close>

definition no_running_recording :: "state \<Rightarrow> bool" where
  "no_running_recording st =
     list_all (\<lambda>(key, pid). \<not> (startswith key ''record_'' \<and> poll st pid = None))
       (current_processes st)"

definition no_running_stream :: "state \<Rightarrow> bool" where
  "no_running_stream st =
     (case map_of (current_processes st) ''live_stream'' of
        None \<Rightarrow> True
      | Some pid \<Rightarrow> poll st pid \<noteq> None)"

text \<open>Repeated \<^verbatim>\<open>STOP_RECORD\<close> and \<^verbatim>\<open>STOP_STREAM\<close> commands, each with its own environment.\<close>

definition repeat_stop_record :: "(env \<times> json) list \<Rightarrow> state \<Rightarrow> state" where
  "repeat_stop_record calls st =
     foldl (\<lambda>s (e, data). snd (handle_stop_record e data s)) st calls"

definition repeat_stop_stream :: "(env \<times> json) list \<Rightarrow> state \<Rightarrow> state" where
  "repeat_stop_stream calls st =
     foldl (\<lambda>s (e, data). snd (handle_stop_stream e data s)) st calls"

text \<open>The state without its log.\<close>

definition unlogged :: "state \<Rightarrow> state" where
  "unlogged st = st\<lparr>logged := []\<rparr>"

text \<open>
  A state whose table still holds a capture and a broadcast that have both ended, and a
  running diagnostic capture.
\<close>

definition ended_state :: state where
  "ended_state =
     \<lparr>current_processes =
        [(''record_20240101_115900'', 0), (''live_stream'', 1), (''test_record_20240101_115930'', 2)],
      procs =
        [\<lparr>proc_argv = [''ffmpeg''], proc_role = Capture, proc_status = Exited 0\<rparr>,
         \<lparr>proc_argv = [''ffmpeg''], proc_role = Broadcast, proc_status = Exited 255\<rparr>,
         \<lparr>proc_argv = [''bash''], proc_role = DiagnosticCapture, proc_status = Running\<rparr>],
      logged = [], sent = [], tasks = [], running = True\<rparr>"

text \<open>A capture that has ended with return code 1, still in the table.\<close>

definition failed_capture_state :: state where
  "failed_capture_state =
     \<lparr>current_processes = [(''record_20240101_115900'', 0)],
      procs = [\<lparr>proc_argv = [''ffmpeg''], proc_role = Capture, proc_status = Exited 1\<rparr>],
      logged = [], sent = [], tasks = [MonitorFfmpeg 0 ''record_20240101_115900''],
      running = True\<rparr>"

text \<open>
  \<open>path_in dir name\<close> is the file \<open>name\<close> directly in the directory \<open>dir\<close>, written the way
  \<^verbatim>\<open>os.path.join\<close> writes it: no separator is added after an empty directory name or after
  one that ends with a separator.
\<close>

definition path_in :: "string \<Rightarrow> string \<Rightarrow> string" where
  "path_in dir name = (if dir = [] \<or> last dir = CHR ''/'' then dir @ name else dir @ ''/'' @ name)"

text \<open>
  The fields of the command frame
  \<^verbatim>\<open>{"commandId": "c1", "cmd": <verb>, "by": "u1", "meta": <meta>}\<close>.
\<close>

definition command_fields :: "string \<Rightarrow> json \<Rightarrow> (string \<times> json) list" where
  "command_fields verb meta =
     [(''commandId'', JStr ''c1''), (''cmd'', JStr verb), (''by'', JStr ''u1''), (''meta'', meta)]"

text \<open>The \<^verbatim>\<open>meta\<close> dictionary of a command, empty when the frame has none.\<close>

definition command_meta :: "(string \<times> json) list \<Rightarrow> (string \<times> json) list" where
  "command_meta d = (case dict_get d ''meta'' (JObj []) of JObj m \<Rightarrow> m | _ \<Rightarrow> [])"

subsection \<open>A broadcast started three times\<close>







section \<open>Properties of the numeric formats\<close>

lemma digit_char_cases:
  "d < 10 \<Longrightarrow> d = 0 \<or> d = 1 \<or> d = 2 \<or> d = 3 \<or> d = 4 \<or> d = 5 \<or> d = 6 \<or> d = 7 \<or> d = 8 \<or> d = (9::nat)"
  by arith

lemma digit_val_digit_char: "d < 10 \<Longrightarrow> digit_val (digit_char d) = d"
  using digit_char_cases [of d] by (auto simp: digit_val_def digit_char_def)

lemma is_digit_digit_char: "d < 10 \<Longrightarrow> is_digit (digit_char d)"
  using digit_char_cases [of d] by (auto simp: is_digit_def digit_char_def)

lemma read_nat_snoc: "read_nat (s @ [c]) = 10 * read_nat s + digit_val c"
  by (simp add: read_nat_def)

lemma read_nat_str_of_nat: "read_nat (str_of_nat n) = n"
proof (induction n rule: str_of_nat.induct)
  case (1 n)
  show ?case
  proof (cases "n < 10")
    case True
    then show ?thesis
      by (subst str_of_nat.simps) (simp add: read_nat_def digit_val_digit_char)
  next
    case False
    with "1" have "read_nat (str_of_nat (n div 10)) = n div 10"
      by simp
    with False show ?thesis
      by (subst str_of_nat.simps) (simp add: read_nat_snoc digit_val_digit_char)
  qed
qed

lemma digits_str_of_nat: "list_all is_digit (str_of_nat n)"
proof (induction n rule: str_of_nat.induct)
  case (1 n)
  show ?case
  proof (cases "n < 10")
    case True
    then show ?thesis
      by (subst str_of_nat.simps) (simp add: is_digit_digit_char)
  next
    case False
    with "1" have "list_all is_digit (str_of_nat (n div 10))"
      by simp
    with False show ?thesis
      by (subst str_of_nat.simps) (simp add: is_digit_digit_char)
  qed
qed

lemma length_str_of_nat_pos: "0 < length (str_of_nat n)"
  by (subst str_of_nat.simps) simp

lemma length_str_of_nat_small: "n < 10 \<Longrightarrow> length (str_of_nat n) = 1"
  by (subst str_of_nat.simps) simp

lemma length_str_of_nat_two: "10 \<le> n \<Longrightarrow> n < 100 \<Longrightarrow> length (str_of_nat n) = 2"
proof -
  assume a: "10 \<le> n" "n < 100"
  then have "n div 10 < 10" by simp
  then have "length (str_of_nat (n div 10)) = 1"
    by (rule length_str_of_nat_small)
  with a show ?thesis
    by (subst str_of_nat.simps) simp
qed

lemma length_str_of_nat_ge2: "10 \<le> n \<Longrightarrow> 2 \<le> length (str_of_nat n)"
proof -
  assume a: "10 \<le> n"
  have "Suc 0 \<le> length (str_of_nat (n div 10))"
    using length_str_of_nat_pos [of "n div 10"] by (simp only: Suc_le_eq)
  with a show ?thesis
    by (subst str_of_nat.simps) simp
qed

lemma read_nat_zero_cons: "read_nat (CHR ''0'' # s) = read_nat s"
  by (simp add: read_nat_def digit_val_def)

lemma fmt_02d_nonneg:
  assumes "0 \<le> i"
  shows "list_all is_digit (fmt_02d i)"
    and "read_nat (fmt_02d i) = nat i"
    and "2 \<le> length (fmt_02d i)"
    and "i < 100 \<Longrightarrow> length (fmt_02d i) = 2"
proof -
  let ?n = "nat i"
  have s: "str_of_int i = str_of_nat ?n"
    using assms by (simp add: str_of_int_def)
  have z: "is_digit (CHR ''0'')"
    by (simp add: is_digit_def)
  have d: "list_all is_digit (str_of_nat ?n)"
    by (rule digits_str_of_nat)
  show "list_all is_digit (fmt_02d i)"
    using z d by (auto simp: fmt_02d_def Let_def s list_all_iff)
  show "read_nat (fmt_02d i) = nat i"
  proof (cases "?n < 10")
    case True
    then show ?thesis
      by (simp add: fmt_02d_def Let_def s length_str_of_nat_small read_nat_zero_cons read_nat_str_of_nat)
  next
    case False
    then have "2 \<le> length (str_of_nat ?n)"
      by (simp add: length_str_of_nat_ge2)
    then show ?thesis
      by (simp add: fmt_02d_def Let_def s read_nat_str_of_nat)
  qed
  show "2 \<le> length (fmt_02d i)"
    by (simp add: fmt_02d_def Let_def s)
  show "length (fmt_02d i) = 2" if "i < 100"
  proof (cases "?n < 10")
    case True
    then show ?thesis
      by (simp add: fmt_02d_def Let_def s length_str_of_nat_small)
  next
    case False
    with that have "length (str_of_nat ?n) = 2"
      by (intro length_str_of_nat_two) auto
    then show ?thesis
      by (simp add: fmt_02d_def Let_def s)
  qed
qed

lemma hms_fields:
  assumes h: "0 \<le> h" and m: "0 \<le> m" "m < 60" and s: "0 \<le> s" "s < 60"
  shows "\<exists>hs ms ss.
      fmt_02d h @ '':'' @ fmt_02d m @ '':'' @ fmt_02d s = hs @ '':'' @ ms @ '':'' @ ss
    \<and> list_all is_digit hs \<and> list_all is_digit ms \<and> list_all is_digit ss
    \<and> 2 \<le> length hs \<and> length ms = 2 \<and> length ss = 2
    \<and> read_nat ms < 60 \<and> read_nat ss < 60
    \<and> 3600 * int (read_nat hs) + 60 * int (read_nat ms) + int (read_nat ss)
        = 3600 * h + 60 * m + s"
proof (intro exI conjI)
  show "fmt_02d h @ '':'' @ fmt_02d m @ '':'' @ fmt_02d s
      = fmt_02d h @ '':'' @ fmt_02d m @ '':'' @ fmt_02d s"
    by (rule refl)
  show "list_all is_digit (fmt_02d h)"
    using h by (rule fmt_02d_nonneg(1))
  show "list_all is_digit (fmt_02d m)"
    using m(1) by (rule fmt_02d_nonneg(1))
  show "list_all is_digit (fmt_02d s)"
    using s(1) by (rule fmt_02d_nonneg(1))
  show "2 \<le> length (fmt_02d h)"
    using h by (rule fmt_02d_nonneg(3))
  show "length (fmt_02d m) = 2"
    using m by (simp add: fmt_02d_nonneg(4))
  show "length (fmt_02d s) = 2"
    using s by (simp add: fmt_02d_nonneg(4))
  show "read_nat (fmt_02d m) < 60"
    using m by (simp add: fmt_02d_nonneg(2))
  show "read_nat (fmt_02d s) < 60"
    using s by (simp add: fmt_02d_nonneg(2))
  show "3600 * int (read_nat (fmt_02d h)) + 60 * int (read_nat (fmt_02d m))
      + int (read_nat (fmt_02d s)) = 3600 * h + 60 * m + s"
    using h m(1) s(1) by (simp add: fmt_02d_nonneg(2))
qed

lemma hms_split:
  fixes d :: int
  shows "3600 * (d div 3600) + 60 * (d mod 3600 div 60) + d mod 60 = d"
proof -
  have c: "d mod 3600 mod 60 = d mod 60"
    by (rule mod_mod_cancel) simp
  have "3600 * (d div 3600) + 60 * (d mod 3600 div 60) + d mod 60
      = 3600 * (d div 3600) + (60 * (d mod 3600 div 60) + d mod 3600 mod 60)"
    by (simp only: c add.assoc)
  also have "\<dots> = 3600 * (d div 3600) + d mod 3600"
    by (simp only: mult_div_mod_eq)
  also have "\<dots> = d"
    by (simp only: mult_div_mod_eq)
  finally show ?thesis .
qed

lemma hms_minutes_bound:
  fixes d :: int
  shows "0 \<le> d mod 3600 div 60" and "d mod 3600 div 60 < 60"
proof -
  have x: "0 \<le> d mod 3600" "d mod 3600 \<le> 3599"
    by simp_all
  show "0 \<le> d mod 3600 div 60"
    using x(1) by (simp only: pos_imp_zdiv_nonneg_iff)
  have "d mod 3600 div 60 \<le> 3599 div 60"
    using x(2) by (rule zdiv_mono1) simp
  then show "d mod 3600 div 60 < 60"
    by simp
qed

lemma hms_str_exact:
  assumes "0 \<le> d"
  shows "\<exists>hs ms ss.
      hms_str d = hs @ '':'' @ ms @ '':'' @ ss
    \<and> list_all is_digit hs \<and> list_all is_digit ms \<and> list_all is_digit ss
    \<and> 2 \<le> length hs \<and> length ms = 2 \<and> length ss = 2
    \<and> read_nat ms < 60 \<and> read_nat ss < 60
    \<and> 3600 * int (read_nat hs) + 60 * int (read_nat ms) + int (read_nat ss) = d"
proof -
  have h: "0 \<le> d div 3600"
    using assms by (simp only: pos_imp_zdiv_nonneg_iff)
  have s: "0 \<le> d mod 60" "d mod 60 < 60"
    by simp_all
  have e: "hms_str d = fmt_02d (d div 3600) @ '':'' @ fmt_02d (d mod 3600 div 60) @ '':''
      @ fmt_02d (d mod 60)"
    by (simp add: hms_str_def Let_def)
  show ?thesis
    using hms_fields [OF h hms_minutes_bound [of d] s] by (simp only: e hms_split)
qed

text \<open>
  C8. For every whole-second duration \<open>d \<ge> 0\<close> the handler computes a duration string
  \<open>hs:ms:ss\<close> of three decimal fields (the hour field has at least two digits, the minute
  and second fields exactly two), whose values \<open>h\<close>, \<open>m\<close>, \<open>s\<close> satisfy
  \<open>3600 * h + 60 * m + s = d\<close> with \<open>m < 60\<close> and \<open>s < 60\<close>; the encoder command line carries
  that string as the argument of \<^verbatim>\<open>-t\<close>.
\<close>

theorem duration_str_exact:
  assumes "0 \<le> d"
  shows "\<exists>hs ms ss.
      duration_str (JInt d) = Inr (hs @ '':'' @ ms @ '':'' @ ss)
    \<and> list_all is_digit hs \<and> list_all is_digit ms \<and> list_all is_digit ss
    \<and> 2 \<le> length hs \<and> length ms = 2 \<and> length ss = 2
    \<and> read_nat ms < 60 \<and> read_nat ss < 60
    \<and> 3600 * int (read_nat hs) + 60 * int (read_nat ms) + int (read_nat ss) = d
    \<and> record_ffmpeg_cmd url quality (hs @ '':'' @ ms @ '':'' @ ss) out ! 21 = ''-t''
    \<and> record_ffmpeg_cmd url quality (hs @ '':'' @ ms @ '':'' @ ss) out ! 22
        = hs @ '':'' @ ms @ '':'' @ ss"
proof -
  from hms_str_exact [OF assms] obtain hs ms ss where
    "hms_str d = hs @ '':'' @ ms @ '':'' @ ss"
    "list_all is_digit hs" "list_all is_digit ms" "list_all is_digit ss"
    "2 \<le> length hs" "length ms = 2" "length ss = 2"
    "read_nat ms < 60" "read_nat ss < 60"
    "3600 * int (read_nat hs) + 60 * int (read_nat ms) + int (read_nat ss) = d"
    by blast
  moreover have "record_ffmpeg_cmd url quality x out ! 21 = ''-t''"
    "record_ffmpeg_cmd url quality x out ! 22 = x" for x
    by (simp_all add: record_ffmpeg_cmd_def)
  ultimately show ?thesis
    by (intro exI [of _ hs] exI [of _ ms] exI [of _ ss]) (simp only: duration_str.simps simp_thms)
qed

lemma hms_str_3725: "hms_str 3725 = ''01:02:05''"
  by code_simp

theorem duration_str_exact_witness:
  "(0::int) \<le> 3725 \<and>
   (\<exists>hs ms ss.
      duration_str (JInt 3725) = Inr (hs @ '':'' @ ms @ '':'' @ ss)
    \<and> list_all is_digit hs \<and> list_all is_digit ms \<and> list_all is_digit ss
    \<and> 2 \<le> length hs \<and> length ms = 2 \<and> length ss = 2
    \<and> read_nat ms < 60 \<and> read_nat ss < 60
    \<and> 3600 * int (read_nat hs) + 60 * int (read_nat ms) + int (read_nat ss) = 3725
    \<and> record_ffmpeg_cmd ''rtsp://cam'' (JStr ''1080p'') (hs @ '':'' @ ms @ '':'' @ ss) ''o.mp4'' ! 21
        = ''-t''
    \<and> record_ffmpeg_cmd ''rtsp://cam'' (JStr ''1080p'') (hs @ '':'' @ ms @ '':'' @ ss) ''o.mp4'' ! 22
        = hs @ '':'' @ ms @ '':'' @ ss)"
proof -
  have h: "(0::int) \<le> 3725"
    by simp
  show ?thesis
    by (rule conjI [OF h duration_str_exact [OF h]])
qed

section \<open>Frame properties of the state operations\<close>

lemma log_msg_simps [simp]:
  "current_processes (log_msg l m st) = current_processes st"
  "procs (log_msg l m st) = procs st"
  "logged (log_msg l m st) = logged st @ [(l, m)]"
  "sent (log_msg l m st) = sent st"
  "tasks (log_msg l m st) = tasks st"
  "running (log_msg l m st) = running st"
  by (simp_all add: log_msg_def)

lemma create_task_simps [simp]:
  "current_processes (create_task t st) = current_processes st"
  "procs (create_task t st) = procs st"
  "logged (create_task t st) = logged st"
  "sent (create_task t st) = sent st"
  "tasks (create_task t st) = tasks st @ [t]"
  "running (create_task t st) = running st"
  by (simp_all add: create_task_def)

lemma register_simps [simp]:
  "current_processes (register k pid st) = AList.update k pid (current_processes st)"
  "procs (register k pid st) = procs st"
  "logged (register k pid st) = logged st"
  "sent (register k pid st) = sent st"
  "tasks (register k pid st) = tasks st"
  "running (register k pid st) = running st"
  by (simp_all add: register_def)

lemma unregister_simps [simp]:
  "current_processes (unregister k st) = AList.delete k (current_processes st)"
  "procs (unregister k st) = procs st"
  "logged (unregister k st) = logged st"
  "sent (unregister k st) = sent st"
  "tasks (unregister k st) = tasks st"
  "running (unregister k st) = running st"
  by (simp_all add: unregister_def)

lemma set_status_simps [simp]:
  "current_processes (set_status pid s st) = current_processes st"
  "procs (set_status pid s st) = (procs st)[pid := (procs st ! pid)\<lparr>proc_status := s\<rparr>]"
  "logged (set_status pid s st) = logged st"
  "sent (set_status pid s st) = sent st"
  "tasks (set_status pid s st) = tasks st"
  "running (set_status pid s st) = running st"
  by (simp_all add: set_status_def)

lemma popen_simps [simp]:
  "fst (popen argv r st) = length (procs st)"
  "current_processes (snd (popen argv r st)) = current_processes st"
  "procs (snd (popen argv r st))
     = procs st @ [\<lparr>proc_argv = argv, proc_role = r, proc_status = Running\<rparr>]"
  "logged (snd (popen argv r st)) = logged st"
  "sent (snd (popen argv r st)) = sent st"
  "tasks (snd (popen argv r st)) = tasks st"
  "running (snd (popen argv r st)) = running st"
  by (simp_all add: popen_def)

lemma terminate_wait_kill_simps [simp]:
  "current_processes (terminate_wait_kill e pid w st) = current_processes st"
  "sent (terminate_wait_kill e pid w st) = sent st"
  "tasks (terminate_wait_kill e pid w st) = tasks st"
  "running (terminate_wait_kill e pid w st) = running st"
  by (simp_all add: terminate_wait_kill_def split: option.splits)

lemma settle_sleep_simps [simp]:
  "current_processes (settle_sleep e pid st) = current_processes st"
  "logged (settle_sleep e pid st) = logged st"
  "sent (settle_sleep e pid st) = sent st"
  "tasks (settle_sleep e pid st) = tasks st"
  "running (settle_sleep e pid st) = running st"
  by (simp_all add: settle_sleep_def split: option.splits)

lemma log_immediate_failure_simps [simp]:
  "current_processes (log_immediate_failure w e rc st) = current_processes st"
  "procs (log_immediate_failure w e rc st) = procs st"
  "sent (log_immediate_failure w e rc st) = sent st"
  "tasks (log_immediate_failure w e rc st) = tasks st"
  "running (log_immediate_failure w e rc st) = running st"
  by (simp_all add: log_immediate_failure_def Let_def)

lemma test_rtsp_connection_simps [simp]:
  "current_processes (snd (test_rtsp_connection cfg e st)) = current_processes st"
  "procs (snd (test_rtsp_connection cfg e st)) = procs st"
  "sent (snd (test_rtsp_connection cfg e st)) = sent st"
  "tasks (snd (test_rtsp_connection cfg e st)) = tasks st"
  "running (snd (test_rtsp_connection cfg e st)) = running st"
  by (simp_all add: test_rtsp_connection_def Let_def split: option.splits probe_result.splits)

section \<open>Handlers return normally and leave the channel alone\<close>

text \<open>
  \<open>raises_Exception_only\<close> describes the body of a \<^verbatim>\<open>try\<close>: whatever it raises derives from
  \<^verbatim>\<open>Exception\<close>, and it has sent nothing. \<open>quiet\<close> describes a handler with its \<^verbatim>\<open>except\<close>
  clause: it returns a value, and it has sent nothing.
\<close>

definition quiet :: "state \<Rightarrow> (exn + 'a) \<times> state \<Rightarrow> bool" where
  "quiet st r = (\<not> isl (fst r) \<and> sent (snd r) = sent st)"

definition raises_Exception_only :: "state \<Rightarrow> (exn + 'a) \<times> state \<Rightarrow> bool" where
  "raises_Exception_only st r =
     ((case fst r of Inl x \<Rightarrow> is_Exception x | Inr a \<Rightarrow> True) \<and> sent (snd r) = sent st)"

lemma reo_Inl: "is_Exception x \<Longrightarrow> sent st' = sent st \<Longrightarrow> raises_Exception_only st (Inl x, st')"
  by (simp add: raises_Exception_only_def)

lemma reo_Inr: "sent st' = sent st \<Longrightarrow> raises_Exception_only st (Inr a, st')"
  by (simp add: raises_Exception_only_def)

lemma reo_trans:
  "raises_Exception_only st' r \<Longrightarrow> sent st' = sent st \<Longrightarrow> raises_Exception_only st r"
  by (simp add: raises_Exception_only_def)

lemma quiet_reo: "quiet st r \<Longrightarrow> raises_Exception_only st r"
  by (cases "fst r") (auto simp: quiet_def raises_Exception_only_def)

lemma catch_quiet:
  assumes "raises_Exception_only st r"
    and "\<And>x st'. \<not> isl (fst (h x st'))" "\<And>x st'. sent (snd (h x st')) = sent st'"
  shows "quiet st (catch_Exception r h)"
proof (cases r)
  case (Pair o' st')
  show ?thesis
  proof (cases o')
    case (Inl x)
    with Pair assms(1) have "is_Exception x" "sent st' = sent st"
      by (simp_all add: raises_Exception_only_def)
    with Pair Inl assms(2) [of x st'] assms(3) [of x st'] show ?thesis
      by (auto simp: quiet_def catch_Exception_def)
  next
    case (Inr a)
    with Pair assms(1) show ?thesis
      by (simp add: quiet_def catch_Exception_def raises_Exception_only_def)
  qed
qed

lemma stop_record_loop_sent: "sent (snd (stop_record_loop e items n st)) = sent st"
  by (induction e items n st rule: stop_record_loop.induct) (simp_all add: Let_def)

lemma stop_record_try_ok: "raises_Exception_only st (stop_record_try e data st)"
  by (simp add: stop_record_try_def case_prod_beta reo_Inr stop_record_loop_sent)

lemma handle_stop_record_quiet: "quiet st (handle_stop_record e data st)"
  unfolding handle_stop_record_def
  by (rule catch_quiet [OF stop_record_try_ok]) simp_all

lemma stop_stream_try_ok: "raises_Exception_only st (stop_stream_try e data st)"
  by (simp add: stop_stream_try_def Let_def reo_Inr split: option.splits)

lemma handle_stop_stream_quiet: "quiet st (handle_stop_stream e data st)"
  unfolding handle_stop_stream_def
  by (rule catch_quiet [OF stop_stream_try_ok]) simp_all

lemma py_get_Exception: "py_get v k d = Inl x \<Longrightarrow> is_Exception x"
  by (cases v) auto

lemma duration_str_Exception: "duration_str v = Inl x \<Longrightarrow> is_Exception x"
  by (cases v) auto

lemma stream_key_message_Exception: "stream_key_message e v = Inl x \<Longrightarrow> is_Exception x"
  by (cases v) (auto split: if_splits)

lemma communicate_exn_Exception [simp]: "is_Exception (communicate_exn x)"
  by (cases x) simp_all

lemma record_launch_ok: "raises_Exception_only st (record_launch cfg e cmd st)"
  by (simp add: record_launch_def Let_def case_prod_beta reo_Inr reo_Inl split: option.splits)

lemma start_record_try_ok: "raises_Exception_only st (start_record_try cfg e data st)"
  unfolding start_record_try_def Let_def
  by (auto split: sum.splits option.splits
      intro!: reo_Inl reo_Inr reo_trans [OF record_launch_ok]
      simp: py_get_Exception duration_str_Exception)

lemma handle_start_record_quiet: "quiet st (handle_start_record cfg e data st)"
  unfolding handle_start_record_def
  by (rule catch_quiet [OF start_record_try_ok]) simp_all

lemma stream_launch_ok: "raises_Exception_only st (stream_launch cfg e k st)"
  by (simp add: stream_launch_def Let_def case_prod_beta reo_Inr reo_Inl split: option.splits)

lemma stop_existing_stream_quiet: "quiet st (stop_existing_stream e st)"
  using handle_stop_stream_quiet [of st e "JObj []"]
  by (simp add: stop_existing_stream_def quiet_def)

lemma stop_existing_stream_Inl: "stop_existing_stream e st = (Inl x, st') \<Longrightarrow> False"
  using stop_existing_stream_quiet [of st e] by (simp add: quiet_def)

lemma stop_existing_stream_sent: "stop_existing_stream e st = (r, st') \<Longrightarrow> sent st' = sent st"
  using stop_existing_stream_quiet [of st e] by (simp add: quiet_def)

lemma start_stream_launch_ok: "raises_Exception_only st (start_stream_launch cfg e data st)"
  unfolding start_stream_launch_def Let_def
  by (auto split: sum.splits option.splits prod.splits
      intro!: reo_Inl reo_Inr reo_trans [OF stream_launch_ok]
      dest: stop_existing_stream_Inl stop_existing_stream_sent
      simp: py_get_Exception stream_key_message_Exception)

lemma start_stream_settle_ok: "raises_Exception_only st (start_stream_settle e pid st)"
  by (simp add: start_stream_settle_def reo_Inr reo_Inl split: option.splits)

lemma start_stream_try_ok:
  assumes "\<And>pid s. sent (during_sleep pid s) = sent s"
  shows "raises_Exception_only st (start_stream_try during_sleep cfg e data st)"
proof (cases "start_stream_launch cfg e data st")
  case (Pair r st1)
  with start_stream_launch_ok [of st cfg e data]
  have r: "case r of Inl x \<Rightarrow> is_Exception x | Inr a \<Rightarrow> True" and s: "sent st1 = sent st"
    by (simp_all add: raises_Exception_only_def)
  show ?thesis
  proof (cases r)
    case (Inl x)
    with Pair r s show ?thesis
      by (simp add: start_stream_try_def reo_Inl)
  next
    case (Inr l)
    show ?thesis
    proof (cases l)
      case (Returned b)
      with Pair Inr s show ?thesis
        by (simp add: start_stream_try_def reo_Inr)
    next
      case (Launched pid)
      have "raises_Exception_only st (start_stream_settle e pid (during_sleep pid st1))"
        by (rule reo_trans [OF start_stream_settle_ok]) (simp add: assms s)
      with Pair Inr Launched show ?thesis
        by (simp add: start_stream_try_def)
    qed
  qed
qed

lemma handle_start_stream_quiet: "quiet st (handle_start_stream cfg e data st)"
  unfolding handle_start_stream_def handle_start_stream_during_def
  by (rule catch_quiet [OF start_stream_try_ok]) simp_all

lemma test_record_try_ok: "raises_Exception_only st (test_record_try cfg e data st)"
  unfolding test_record_try_def Let_def
  by (auto split: sum.splits simp: case_prod_beta py_get_Exception intro!: reo_Inl reo_Inr)

lemma handle_test_record_quiet: "quiet st (handle_test_record cfg e data st)"
  unfolding handle_test_record_def
  by (rule catch_quiet [OF test_record_try_ok]) simp_all

lemma test_stream_try_ok: "raises_Exception_only st (test_stream_try cfg e data st)"
  unfolding test_stream_try_def Let_def
  by (auto split: sum.splits simp: case_prod_beta py_get_Exception intro!: reo_Inl reo_Inr)

lemma handle_test_stream_quiet: "quiet st (handle_test_stream cfg e data st)"
  unfolding handle_test_stream_def
  by (rule catch_quiet [OF test_stream_try_ok]) simp_all

lemma dispatch_quiet: "quiet st (dispatch cfg e command data st)"
  by (simp add: dispatch_def handle_start_record_quiet handle_stop_record_quiet
      handle_start_stream_quiet handle_stop_stream_quiet handle_test_record_quiet
      handle_test_stream_quiet)
     (simp add: quiet_def)

section \<open>The command router\<close>

lemma dispatch_result:
  "\<exists>success st'. dispatch cfg e c data s = (Inr success, st') \<and> sent st' = sent s"
  using dispatch_quiet [of s cfg e c data]
  by (cases "dispatch cfg e c data s"; cases "fst (dispatch cfg e c data s)")
     (auto simp: quiet_def)

lemma handle_message_try_command:
  assumes "loads message = Some (JObj d)"
  shows "\<exists>success st3.
      sent st3 = sent st
    \<and> handle_message_try loads cfg e message st =
        (if py_truthy (dict_get d ''commandId'' JNull) then
           if send_ok e then
             (Inr (),
              log_msg INFO (''Sent ACK for command '' @ py_str e (dict_get d ''commandId'' JNull)
                  @ '': '' @ (if success then ''success'' else ''failed''))
                (st3\<lparr>sent := sent st3 @ [ack_message e (dict_get d ''commandId'' JNull)
                   (dict_get d ''cmd'' JNull) success]\<rparr>))
           else (Inl ConnectionClosed, st3)
         else (Inr (), st3))"
proof -
  let ?st2 = "log_msg DEBUG (''Full message data: '' @ format_value e (JObj d))
      (log_msg INFO (''Received command: '' @ py_str e (dict_get d ''cmd'' JNull) @ '' (ID: ''
         @ py_str e (dict_get d ''commandId'' JNull) @ '')'') st)"
  from dispatch_result [of cfg e "dict_get d ''cmd'' JNull" "JObj d" ?st2]
  obtain success st3 where
    r: "dispatch cfg e (dict_get d ''cmd'' JNull) (JObj d) ?st2 = (Inr success, st3)"
    and s: "sent st3 = sent ?st2"
    by blast
  show ?thesis
    by (rule exI [of _ success], rule exI [of _ st3])
       (use assms r s in \<open>simp add: handle_message_try_def Let_def\<close>)
qed

lemma handle_message_try_ok:
  assumes "fst (handle_message_try loads cfg e message st) = Inl x"
  shows "is_Exception x"
proof (cases "loads message")
  case None
  with assms show ?thesis
    by (simp add: handle_message_try_def)
next
  case (Some data)
  show ?thesis
  proof (cases data)
    case (JObj d)
    with Some have "loads message = Some (JObj d)"
      by simp
    from handle_message_try_command [of loads message d st cfg e, OF this] assms show ?thesis
      by (auto split: if_splits)
  qed (use Some assms in \<open>auto simp: handle_message_try_def\<close>)
qed

lemma handle_message_returns:
  "\<exists>st'. handle_message loads cfg e message st = (Inr (), st')"
proof (cases "handle_message_try loads cfg e message st")
  case (Pair r st1)
  show ?thesis
  proof (cases r)
    case (Inl x)
    with Pair handle_message_try_ok [of loads cfg e message st x] show ?thesis
      by (simp add: handle_message_def)
  next
    case (Inr u)
    with Pair show ?thesis
      by (simp add: handle_message_def)
  qed
qed

lemma receive_loop_returns: "\<exists>st'. receive_loop loads cfg frames st = (Inr (), st')"
proof (induction loads cfg frames st rule: receive_loop.induct)
  case (2 loads cfg e message frames st)
  from handle_message_returns [of loads cfg e message st]
  obtain st1 where h: "handle_message loads cfg e message st = (Inr (), st1)"
    by blast
  with "2.IH" [of "Inr ()" st1 "()"] show ?case
    by (cases "running st") simp_all
qed simp_all

lemma receive_loop_stopped: "\<not> running st \<Longrightarrow> receive_loop loads cfg frames st = (Inr (), st)"
  by (cases "(loads, cfg, frames, st)" rule: receive_loop.cases) simp_all

lemma receive_loop_append:
  "receive_loop loads cfg (frames @ rest) st
     = receive_loop loads cfg rest (snd (receive_loop loads cfg frames st))"
proof (induction loads cfg frames st rule: receive_loop.induct)
  case (2 loads cfg e message frames st)
  from handle_message_returns [of loads cfg e message st]
  obtain st1 where h: "handle_message loads cfg e message st = (Inr (), st1)"
    by blast
  with "2.IH" [of "Inr ()" st1 "()"] show ?case
    by (cases "running st") (simp_all add: receive_loop_stopped)
next
  case (3 loads cfg e n frames st)
  then show ?case
    by (cases "running st") (simp_all add: receive_loop_stopped)
qed simp

text \<open>
  C7. For every inbound text frame, well-formed or not, \<open>handle_message\<close> returns normally: no
  exception leaves it. A frame that \<^verbatim>\<open>json.loads\<close> rejects is logged at error level and
  otherwise ignored (nothing else of the state changes). Every command handler returns a
  boolean to the router, and the receive loop never ends by an exception: after any frames it
  goes on with the frames that follow.
\<close>

theorem handle_message_never_raises:
  "(\<exists>st'. handle_message loads cfg e message st = (Inr (), st'))
   \<and> (loads message = None \<longrightarrow>
        handle_message loads cfg e message st
          = (Inr (), log_msg ERROR (''Invalid message format: '' @ exn_name JSONDecodeError) st))
   \<and> (\<exists>success st'. dispatch cfg e command data st = (Inr success, st'))
   \<and> (\<exists>st'. receive_loop loads cfg frames st = (Inr (), st'))
   \<and> receive_loop loads cfg (frames @ rest) st
        = receive_loop loads cfg rest (snd (receive_loop loads cfg frames st))"
proof (intro conjI impI)
  show "\<exists>st'. handle_message loads cfg e message st = (Inr (), st')"
    by (rule handle_message_returns)
  show "handle_message loads cfg e message st
      = (Inr (), log_msg ERROR (''Invalid message format: '' @ exn_name JSONDecodeError) st)"
    if "loads message = None"
    using that by (simp add: handle_message_def handle_message_try_def)
  show "\<exists>success st'. dispatch cfg e command data st = (Inr success, st')"
    using dispatch_result [of cfg e command data st] by blast
  show "\<exists>st'. receive_loop loads cfg frames st = (Inr (), st')"
    by (rule receive_loop_returns)
  show "receive_loop loads cfg (frames @ rest) st
      = receive_loop loads cfg rest (snd (receive_loop loads cfg frames st))"
    by (rule receive_loop_append)
qed

text \<open>A frame that is not JSON, received in the initial state.\<close>

theorem handle_message_never_raises_witness:
  "(\<lambda>m. None) ''{not json'' = (None :: json option)
   \<and> handle_message (\<lambda>m. None) sample_config sample_env ''{not json'' initial_state
       = (Inr (), log_msg ERROR (''Invalid message format: '' @ exn_name JSONDecodeError)
            initial_state)"
  using handle_message_never_raises
    [of "\<lambda>m. None" sample_config sample_env "''{not json''" initial_state JNull JNull "[]" "[]"]
  by simp

lemma handle_message_command:
  assumes "loads message = Some (JObj d)"
  shows "\<exists>success st3.
      sent st3 = sent st
    \<and> handle_message loads cfg e message st =
        (if py_truthy (dict_get d ''commandId'' JNull) then
           if send_ok e then
             (Inr (),
              log_msg INFO (''Sent ACK for command '' @ py_str e (dict_get d ''commandId'' JNull)
                  @ '': '' @ (if success then ''success'' else ''failed''))
                (st3\<lparr>sent := sent st3 @ [ack_message e (dict_get d ''commandId'' JNull)
                   (dict_get d ''cmd'' JNull) success]\<rparr>))
           else (Inr (), log_msg ERROR (''Error handling message: '' @ exn_name ConnectionClosed) st3)
         else (Inr (), st3))"
proof -
  from handle_message_try_command [of loads message d st cfg e, OF assms]
  obtain success st3 where s: "sent st3 = sent st"
    and t: "handle_message_try loads cfg e message st =
        (if py_truthy (dict_get d ''commandId'' JNull) then
           if send_ok e then
             (Inr (),
              log_msg INFO (''Sent ACK for command '' @ py_str e (dict_get d ''commandId'' JNull)
                  @ '': '' @ (if success then ''success'' else ''failed''))
                (st3\<lparr>sent := sent st3 @ [ack_message e (dict_get d ''commandId'' JNull)
                   (dict_get d ''cmd'' JNull) success]\<rparr>))
           else (Inl ConnectionClosed, st3)
         else (Inr (), st3))"
    by blast
  show ?thesis
    by (rule exI [of _ success], rule exI [of _ st3]) (simp add: s t handle_message_def)
qed

text \<open>
  C1, as the code has it. For every command frame (a JSON object) whose \<^verbatim>\<open>commandId\<close> is
  truthy, handled while the channel accepts the write, \<open>handle_message\<close> sends exactly one
  frame, the acknowledgment, and that acknowledgment carries the command's own
  \<^verbatim>\<open>commandId\<close> and the handler's result as \<^verbatim>\<open>success\<close>. The guard \<^verbatim>\<open>if command_id:\<close> sends
  nothing for a frame whose \<^verbatim>\<open>commandId\<close> is absent, null, empty, zero or false.
\<close>

theorem ack_for_command:
  assumes "loads message = Some (JObj d)"
    and "py_truthy (dict_get d ''commandId'' JNull)"
    and "send_ok e"
  shows "\<exists>success st'.
      handle_message loads cfg e message st = (Inr (), st')
    \<and> sent st' = sent st @ [ack_message e (dict_get d ''commandId'' JNull)
         (dict_get d ''cmd'' JNull) success]
    \<and> py_get (ack_message e (dict_get d ''commandId'' JNull) (dict_get d ''cmd'' JNull) success)
         ''commandId'' JNull = Inr (dict_get d ''commandId'' JNull)
    \<and> py_get (ack_message e (dict_get d ''commandId'' JNull) (dict_get d ''cmd'' JNull) success)
         ''success'' JNull = Inr (JBool success)"
proof -
  from handle_message_command [of loads message d st cfg e, OF assms(1)] assms(2,3)
  obtain success st3 where s: "sent st3 = sent st"
    and h: "handle_message loads cfg e message st =
        (Inr (),
         log_msg INFO (''Sent ACK for command '' @ py_str e (dict_get d ''commandId'' JNull)
             @ '': '' @ (if success then ''success'' else ''failed''))
           (st3\<lparr>sent := sent st3 @ [ack_message e (dict_get d ''commandId'' JNull)
              (dict_get d ''cmd'' JNull) success]\<rparr>))"
    by auto
  show ?thesis
    by (rule exI [of _ success]) (simp add: h s ack_message_def dict_get_def)
qed

lemma no_ack_for_falsy_id:
  assumes "loads message = Some (JObj d)"
    and "\<not> py_truthy (dict_get d ''commandId'' JNull)"
  shows "fst (handle_message loads cfg e message st) = Inr ()"
    and "sent (snd (handle_message loads cfg e message st)) = sent st"
  using handle_message_command [of loads message d st cfg e, OF assms(1)] assms(2)
  by auto

text \<open>
  The frame \<^verbatim>\<open>{"commandId": 0, "cmd": "STOP_STREAM"}\<close> is handled without an error and without
  an acknowledgment: nothing is sent.
\<close>

theorem command_id_zero_not_acknowledged:
  "fst (handle_message (\<lambda>m. Some (JObj (stop_stream_fields (JInt 0)))) sample_config sample_env
      ''frame'' initial_state) = Inr ()
   \<and> sent (snd (handle_message (\<lambda>m. Some (JObj (stop_stream_fields (JInt 0)))) sample_config
      sample_env ''frame'' initial_state)) = sent initial_state"
proof -
  have f: "\<not> py_truthy (dict_get (stop_stream_fields (JInt 0)) ''commandId'' JNull)"
    by (simp add: stop_stream_fields_def dict_get_def)
  show ?thesis
    using no_ack_for_falsy_id
      [of "\<lambda>m. Some (JObj (stop_stream_fields (JInt 0)))" "''frame''"
          "stop_stream_fields (JInt 0)" sample_config sample_env initial_state, OF refl f]
    by (simp add: initial_state_def)
qed

text \<open>The frame \<^verbatim>\<open>{"commandId": "c2", "cmd": "STOP_STREAM"}\<close> is acknowledged once.\<close>

theorem ack_for_command_witness:
  "py_truthy (dict_get (stop_stream_fields (JStr ''c2'')) ''commandId'' JNull)
   \<and> send_ok sample_env
   \<and> (\<exists>success st'.
      handle_message (\<lambda>m. Some (JObj (stop_stream_fields (JStr ''c2'')))) sample_config sample_env
        ''frame'' initial_state = (Inr (), st')
    \<and> sent st' = sent initial_state @ [ack_message sample_env
         (dict_get (stop_stream_fields (JStr ''c2'')) ''commandId'' JNull)
         (dict_get (stop_stream_fields (JStr ''c2'')) ''cmd'' JNull) success])"
proof -
  have t: "py_truthy (dict_get (stop_stream_fields (JStr ''c2'')) ''commandId'' JNull)"
    by (simp add: stop_stream_fields_def dict_get_def)
  have s: "send_ok sample_env"
    by (simp add: sample_env_def)
  show ?thesis
    using ack_for_command
      [of "\<lambda>m. Some (JObj (stop_stream_fields (JStr ''c2'')))" "''frame''"
          "stop_stream_fields (JStr ''c2'')" sample_env sample_config initial_state, OF refl t s]
      t s
    by blast
qed

section \<open>A start of a broadcast without a stream key\<close>

lemma stream_key_message_falsy: "\<not> py_truthy k \<Longrightarrow> stream_key_message e k = Inr ''No stream key''"
  by (cases k) simp_all

lemma no_stream_key_state_simps [simp]:
  "current_processes (no_stream_key_state e m st) = current_processes st"
  "procs (no_stream_key_state e m st) = procs st"
  "sent (no_stream_key_state e m st) = sent st"
  "tasks (no_stream_key_state e m st) = tasks st"
  "running (no_stream_key_state e m st) = running st"
  by (simp_all add: no_stream_key_state_def)

lemma start_stream_no_key:
  assumes "dict_get d ''meta'' (JObj []) = JObj m"
    and "\<not> py_truthy (dict_get m ''stream_key'' (config_stream_key cfg))"
  shows "handle_start_stream cfg e (JObj d) st = (Inr False, no_stream_key_state e m st)"
  using assms
  by (simp add: handle_start_stream_def handle_start_stream_during_def start_stream_try_def
      start_stream_launch_def catch_Exception_def stream_key_message_falsy
      no_stream_key_state_def)

lemma handle_message_dispatch:
  assumes "loads message = Some (JObj d)"
    and "dispatch cfg e (dict_get d ''cmd'' JNull) (JObj d)
           (log_msg DEBUG (''Full message data: '' @ format_value e (JObj d))
              (log_msg INFO (''Received command: '' @ py_str e (dict_get d ''cmd'' JNull)
                 @ '' (ID: '' @ py_str e (dict_get d ''commandId'' JNull) @ '')'') st))
         = (Inr success, st3)"
    and "py_truthy (dict_get d ''commandId'' JNull)"
    and "send_ok e"
  shows "handle_message loads cfg e message st =
      (Inr (),
       log_msg INFO (''Sent ACK for command '' @ py_str e (dict_get d ''commandId'' JNull)
           @ '': '' @ (if success then ''success'' else ''failed''))
         (st3\<lparr>sent := sent st3 @ [ack_message e (dict_get d ''commandId'' JNull)
            (dict_get d ''cmd'' JNull) success]\<rparr>))"
  using assms by (simp add: handle_message_def handle_message_try_def Let_def)

text \<open>
  C4. A \<^verbatim>\<open>START_STREAM\<close> command whose \<^verbatim>\<open>meta\<close> has no \<^verbatim>\<open>stream_key\<close> or an empty one, with no
  stream key configured (the key absent or empty), fails fast: the handler returns \<open>False\<close>
  having launched no process, registered nothing and created no task; and the router then
  sends, for a truthy \<^verbatim>\<open>commandId\<close>, the acknowledgment with \<^verbatim>\<open>success\<close> false and an error
  text.
\<close>

theorem start_stream_without_key_fails:
  assumes meta: "dict_get d ''meta'' (JObj []) = JObj m"
    and key: "map_of m ''stream_key'' = None \<or> map_of m ''stream_key'' = Some (JStr '''')"
    and no_default: "youtube_stream_key cfg = None \<or> youtube_stream_key cfg = Some ''''"
  shows "(\<exists>st'. handle_start_stream cfg e (JObj d) st = (Inr False, st')
      \<and> procs st' = procs st \<and> current_processes st' = current_processes st
      \<and> tasks st' = tasks st)
    \<and> (loads message = Some (JObj d) \<and> dict_get d ''cmd'' JNull = JStr ''START_STREAM''
         \<and> py_truthy (dict_get d ''commandId'' JNull) \<and> send_ok e
      \<longrightarrow> (\<exists>st'. handle_message loads cfg e message st = (Inr (), st')
           \<and> sent st' = sent st @
               [JObj [(''commandId'', dict_get d ''commandId'' JNull),
                      (''success'', JBool False),
                      (''error'', JStr ''Failed to execute command: START_STREAM'')]]
           \<and> procs st' = procs st \<and> current_processes st' = current_processes st
           \<and> tasks st' = tasks st))"
proof -
  have falsy: "\<not> py_truthy (dict_get m ''stream_key'' (config_stream_key cfg))"
    using key no_default by (auto simp: dict_get_def config_stream_key_def)
  have first: "\<exists>st'. handle_start_stream cfg e (JObj d) st = (Inr False, st')
      \<and> procs st' = procs st \<and> current_processes st' = current_processes st
      \<and> tasks st' = tasks st"
    by (rule exI [of _ "no_stream_key_state e m st"])
       (simp add: start_stream_no_key [OF meta falsy])
  have second: "\<exists>st'. handle_message loads cfg e message st = (Inr (), st')
      \<and> sent st' = sent st @
          [JObj [(''commandId'', dict_get d ''commandId'' JNull),
                 (''success'', JBool False),
                 (''error'', JStr ''Failed to execute command: START_STREAM'')]]
      \<and> procs st' = procs st \<and> current_processes st' = current_processes st
      \<and> tasks st' = tasks st"
    if l: "loads message = Some (JObj d)"
      and c: "dict_get d ''cmd'' JNull = JStr ''START_STREAM''"
      and t: "py_truthy (dict_get d ''commandId'' JNull)" and s: "send_ok e"
  proof -
    let ?st2 = "log_msg DEBUG (''Full message data: '' @ format_value e (JObj d))
        (log_msg INFO (''Received command: '' @ py_str e (dict_get d ''cmd'' JNull)
           @ '' (ID: '' @ py_str e (dict_get d ''commandId'' JNull) @ '')'') st)"
    have "dispatch cfg e (dict_get d ''cmd'' JNull) (JObj d) ?st2
        = (Inr False, no_stream_key_state e m ?st2)"
      by (simp add: c dispatch_def start_stream_no_key [OF meta falsy])
    from handle_message_dispatch [where loads = loads and message = message, OF l this t s]
    show ?thesis
      by (simp add: ack_message_def c)
  qed
  from first second show ?thesis
    by blast
qed

text \<open>
  The frame with \<^verbatim>\<open>meta = {"platform": "youtube"}\<close> under the sample configuration, whose
  stream key is empty.
\<close>

theorem start_stream_without_key_fails_witness:
  "dict_get (start_stream_fields [(''platform'', JStr ''youtube'')]) ''meta'' (JObj [])
     = JObj [(''platform'', JStr ''youtube'')]
   \<and> map_of [(''platform'', JStr ''youtube'')] ''stream_key'' = None
   \<and> youtube_stream_key sample_config = Some ''''
   \<and> (\<exists>st'. handle_start_stream sample_config sample_env
          (JObj (start_stream_fields [(''platform'', JStr ''youtube'')])) initial_state
        = (Inr False, st')
      \<and> procs st' = procs initial_state
      \<and> current_processes st' = current_processes initial_state)
   \<and> (\<exists>st'. handle_message (\<lambda>m. Some (JObj (start_stream_fields [(''platform'', JStr ''youtube'')])))
          sample_config sample_env ''frame'' initial_state = (Inr (), st')
      \<and> sent st' = sent initial_state @
          [JObj [(''commandId'',
                  dict_get (start_stream_fields [(''platform'', JStr ''youtube'')]) ''commandId'' JNull),
                 (''success'', JBool False),
                 (''error'', JStr ''Failed to execute command: START_STREAM'')]])"
proof -
  let ?m = "[(''platform'', JStr ''youtube'')]"
  let ?d = "start_stream_fields ?m"
  have meta: "dict_get ?d ''meta'' (JObj []) = JObj ?m"
    by (simp add: start_stream_fields_def dict_get_def)
  have key: "map_of ?m ''stream_key'' = None"
    by simp
  have dflt: "youtube_stream_key sample_config = Some ''''"
    by (simp add: sample_config_def)
  have c: "dict_get ?d ''cmd'' JNull = JStr ''START_STREAM''"
    and t: "py_truthy (dict_get ?d ''commandId'' JNull)"
    by (simp_all add: start_stream_fields_def dict_get_def)
  have s: "send_ok sample_env"
    by (simp add: sample_env_def)
  from start_stream_without_key_fails
    [where d = ?d and m = ?m and cfg = sample_config and e = sample_env and st = initial_state
       and loads = "\<lambda>m. Some (JObj ?d)" and message = "''frame''",
     OF meta disjI1 [OF key] disjI2 [OF dflt]]
  show ?thesis
    using meta key dflt c t s by blast
qed

text \<open>
  C10. When \<^verbatim>\<open>meta\<close> binds \<^verbatim>\<open>stream_key\<close> to the empty string, the configured stream key is not
  consulted: whatever the configuration, the handler returns \<open>False\<close> in the same state, in
  which no process was launched or registered.
\<close>

theorem empty_stream_key_ignores_default:
  assumes "dict_get d ''meta'' (JObj []) = JObj m"
    and "map_of m ''stream_key'' = Some (JStr '''')"
  shows "handle_start_stream cfg e (JObj d) st = (Inr False, no_stream_key_state e m st)
    \<and> procs (no_stream_key_state e m st) = procs st
    \<and> current_processes (no_stream_key_state e m st) = current_processes st
    \<and> tasks (no_stream_key_state e m st) = tasks st"
proof -
  have "\<not> py_truthy (dict_get m ''stream_key'' (config_stream_key cfg))"
    using assms(2) by (simp add: dict_get_def)
  from start_stream_no_key [OF assms(1) this] show ?thesis
    by simp
qed

text \<open>
  The frame with \<^verbatim>\<open>meta = {"stream_key": ""}\<close> while the configuration holds the stream
  key \<^verbatim>\<open>abcd-efgh-ijkl\<close>.
\<close>

theorem empty_stream_key_ignores_default_witness:
  "dict_get (start_stream_fields [(''stream_key'', JStr '''')]) ''meta'' (JObj [])
     = JObj [(''stream_key'', JStr '''')]
   \<and> map_of [(''stream_key'', JStr '''')] ''stream_key'' = Some (JStr '''')
   \<and> youtube_stream_key (sample_config\<lparr>youtube_stream_key := Some ''abcd-efgh-ijkl''\<rparr>)
       = Some ''abcd-efgh-ijkl''
   \<and> handle_start_stream (sample_config\<lparr>youtube_stream_key := Some ''abcd-efgh-ijkl''\<rparr>)
         sample_env (JObj (start_stream_fields [(''stream_key'', JStr '''')])) initial_state
       = (Inr False,
          no_stream_key_state sample_env [(''stream_key'', JStr '''')] initial_state)
   \<and> procs (no_stream_key_state sample_env [(''stream_key'', JStr '''')] initial_state) = []
   \<and> current_processes
        (no_stream_key_state sample_env [(''stream_key'', JStr '''')] initial_state) = []"
proof -
  let ?m = "[(''stream_key'', JStr '''')]"
  let ?d = "start_stream_fields ?m"
  have meta: "dict_get ?d ''meta'' (JObj []) = JObj ?m"
    by (simp add: start_stream_fields_def dict_get_def)
  have key: "map_of ?m ''stream_key'' = Some (JStr '''')"
    by simp
  from empty_stream_key_ignores_default
    [where d = ?d and m = ?m and e = sample_env and st = initial_state
       and cfg = "sample_config\<lparr>youtube_stream_key := Some ''abcd-efgh-ijkl''\<rparr>",
     OF meta key]
  show ?thesis
    using meta key by (simp add: initial_state_def)
qed

section \<open>Stopping when nothing runs\<close>

lemma unlogged_log_msg [simp]: "unlogged (log_msg l m st) = unlogged st"
  by (simp add: unlogged_def log_msg_def)

lemma poll_log_msg [simp]: "poll (log_msg l m st) pid = poll st pid"
  by (simp add: poll_def)

lemma str_of_nat_0: "str_of_nat 0 = ''0''"
  by (simp add: str_of_nat.simps digit_char_def)

lemma stop_record_loop_noop:
  "list_all (\<lambda>(key, pid). \<not> (startswith key ''record_'' \<and> poll st pid = None)) items
   \<Longrightarrow> stop_record_loop e items n st = (n, st)"
  by (induction items) auto

lemma handle_stop_record_noop:
  assumes "no_running_recording st"
  shows "handle_stop_record e data st
     = (Inr True, log_msg INFO ''Stopped 0 recording processes'' st)"
  using stop_record_loop_noop [of st "current_processes st" e 0] assms
  by (simp add: no_running_recording_def handle_stop_record_def stop_record_try_def
      catch_Exception_def str_of_nat_0)

lemma handle_stop_stream_noop:
  assumes "no_running_stream st"
  shows "handle_stop_stream e data st
     = (Inr True, log_msg WARNING ''No active live stream to stop'' st)"
  using assms
  by (auto simp: no_running_stream_def handle_stop_stream_def stop_stream_try_def
      catch_Exception_def split: option.splits)

lemma no_running_recording_log_msg [simp]:
  "no_running_recording (log_msg l m st) = no_running_recording st"
  by (simp add: no_running_recording_def)

lemma no_running_stream_log_msg [simp]:
  "no_running_stream (log_msg l m st) = no_running_stream st"
  by (simp add: no_running_stream_def split: option.splits)

lemma repeat_stop_record_noop:
  "no_running_recording st \<Longrightarrow>
   unlogged (repeat_stop_record calls st) = unlogged st
   \<and> no_running_recording (repeat_stop_record calls st)"
proof (induction calls arbitrary: st)
  case Nil
  then show ?case
    by (simp add: repeat_stop_record_def)
next
  case (Cons c calls)
  obtain e data where c: "c = (e, data)"
    by (cases c)
  let ?st1 = "log_msg INFO ''Stopped 0 recording processes'' st"
  have step: "repeat_stop_record (c # calls) st = repeat_stop_record calls ?st1"
    by (simp add: repeat_stop_record_def c handle_stop_record_noop [OF Cons.prems])
  from Cons.IH [of ?st1] Cons.prems show ?case
    by (simp add: step)
qed

lemma repeat_stop_stream_noop:
  "no_running_stream st \<Longrightarrow>
   unlogged (repeat_stop_stream calls st) = unlogged st
   \<and> no_running_stream (repeat_stop_stream calls st)"
proof (induction calls arbitrary: st)
  case Nil
  then show ?case
    by (simp add: repeat_stop_stream_def)
next
  case (Cons c calls)
  obtain e data where c: "c = (e, data)"
    by (cases c)
  let ?st1 = "log_msg WARNING ''No active live stream to stop'' st"
  have step: "repeat_stop_stream (c # calls) st = repeat_stop_stream calls ?st1"
    by (simp add: repeat_stop_stream_def c handle_stop_stream_noop [OF Cons.prems])
  from Cons.IH [of ?st1] Cons.prems show ?case
    by (simp add: step)
qed

text \<open>
  C5. While no capture is running, \<^verbatim>\<open>STOP_RECORD\<close> returns \<open>True\<close> and changes nothing but the
  log (one line, "Stopped 0 recording processes"); after any number of such calls the state
  is still the same but for the log, and one more call returns \<open>True\<close> again. The same holds
  for \<^verbatim>\<open>STOP_STREAM\<close> while no broadcast is running.
\<close>

theorem stop_with_nothing_running_is_noop:
  "(no_running_recording st \<longrightarrow>
      handle_stop_record e data st
        = (Inr True, log_msg INFO ''Stopped 0 recording processes'' st)
    \<and> unlogged (repeat_stop_record calls st) = unlogged st
    \<and> fst (handle_stop_record e data (repeat_stop_record calls st)) = Inr True
    \<and> unlogged (snd (handle_stop_record e data (repeat_stop_record calls st))) = unlogged st)
   \<and> (no_running_stream st \<longrightarrow>
      handle_stop_stream e data st
        = (Inr True, log_msg WARNING ''No active live stream to stop'' st)
    \<and> unlogged (repeat_stop_stream calls st) = unlogged st
    \<and> fst (handle_stop_stream e data (repeat_stop_stream calls st)) = Inr True
    \<and> unlogged (snd (handle_stop_stream e data (repeat_stop_stream calls st))) = unlogged st)"
proof (intro conjI impI)
  assume a: "no_running_recording st"
  show "handle_stop_record e data st
      = (Inr True, log_msg INFO ''Stopped 0 recording processes'' st)"
    by (rule handle_stop_record_noop [OF a])
  from repeat_stop_record_noop [OF a, of calls]
  have u: "unlogged (repeat_stop_record calls st) = unlogged st"
    and n: "no_running_recording (repeat_stop_record calls st)"
    by simp_all
  show "unlogged (repeat_stop_record calls st) = unlogged st"
    by (rule u)
  show "fst (handle_stop_record e data (repeat_stop_record calls st)) = Inr True"
    by (simp add: handle_stop_record_noop [OF n])
  show "unlogged (snd (handle_stop_record e data (repeat_stop_record calls st))) = unlogged st"
    by (simp add: handle_stop_record_noop [OF n] u)
next
  assume a: "no_running_stream st"
  show "handle_stop_stream e data st
      = (Inr True, log_msg WARNING ''No active live stream to stop'' st)"
    by (rule handle_stop_stream_noop [OF a])
  from repeat_stop_stream_noop [OF a, of calls]
  have u: "unlogged (repeat_stop_stream calls st) = unlogged st"
    and n: "no_running_stream (repeat_stop_stream calls st)"
    by simp_all
  show "unlogged (repeat_stop_stream calls st) = unlogged st"
    by (rule u)
  show "fst (handle_stop_stream e data (repeat_stop_stream calls st)) = Inr True"
    by (simp add: handle_stop_stream_noop [OF n])
  show "unlogged (snd (handle_stop_stream e data (repeat_stop_stream calls st))) = unlogged st"
    by (simp add: handle_stop_stream_noop [OF n] u)
qed

text \<open>Three stop commands in a row in that state, then a fourth.\<close>

theorem stop_with_nothing_running_is_noop_witness:
  "no_running_recording ended_state
   \<and> no_running_stream ended_state
   \<and> unlogged (repeat_stop_record
        [(sample_env, JObj []), (sample_env, JObj []), (sample_env, JObj [])] ended_state)
       = unlogged ended_state
   \<and> fst (handle_stop_record sample_env (JObj []) (repeat_stop_record
        [(sample_env, JObj []), (sample_env, JObj []), (sample_env, JObj [])] ended_state))
       = Inr True
   \<and> unlogged (repeat_stop_stream
        [(sample_env, JObj []), (sample_env, JObj []), (sample_env, JObj [])] ended_state)
       = unlogged ended_state
   \<and> fst (handle_stop_stream sample_env (JObj []) (repeat_stop_stream
        [(sample_env, JObj []), (sample_env, JObj []), (sample_env, JObj [])] ended_state))
       = Inr True"
proof -
  have r: "no_running_recording ended_state"
    by (simp add: no_running_recording_def ended_state_def poll_def startswith_def)
  have s: "no_running_stream ended_state"
    by (simp add: no_running_stream_def ended_state_def poll_def)
  from stop_with_nothing_running_is_noop
    [of ended_state sample_env "JObj []"
        "[(sample_env, JObj []), (sample_env, JObj []), (sample_env, JObj [])]"]
  show ?thesis
    using r s by blast
qed

section \<open>The capture monitor at the end of its process\<close>

lemma monitor_ffmpeg_loop_frame:
  "current_processes (snd (monitor_ffmpeg_loop reads st)) = current_processes st
   \<and> procs (snd (monitor_ffmpeg_loop reads st)) = procs st
   \<and> sent (snd (monitor_ffmpeg_loop reads st)) = sent st
   \<and> tasks (snd (monitor_ffmpeg_loop reads st)) = tasks st"
proof (induction reads arbitrary: st)
  case Nil
  show ?case
    by simp
next
  case (Cons r reads)
  show ?case
    by (cases r) (simp_all add: Cons.IH Let_def)
qed

lemma poll_cong: "procs st' = procs st \<Longrightarrow> poll st' pid = poll st pid"
  by (simp add: poll_def)

lemma monitor_ffmpeg_process_ended:
  assumes "poll st pid = Some rc"
  shows "monitor_ffmpeg_process pid process_key reads comm st
     = Some (monitor_ffmpeg_exit process_key (Some rc) comm (snd (monitor_ffmpeg_loop reads st)))"
proof -
  have "poll (snd (monitor_ffmpeg_loop reads st)) pid = poll st pid"
    by (rule poll_cong) (simp add: monitor_ffmpeg_loop_frame)
  with assms have "poll (snd (monitor_ffmpeg_loop reads st)) pid = Some rc"
    by simp
  then show ?thesis
    by (simp add: monitor_ffmpeg_process_def case_prod_beta)
qed

lemma map_of_delete_same: "map_of (AList.delete k al) k = None"
  by (simp add: AList.delete_conv')

lemma map_of_delete_other: "k' \<noteq> k \<Longrightarrow> map_of (AList.delete k al) k' = map_of al k'"
  by (rule AList.map_of_delete)

text \<open>The stop commands leave the entry of a process that has ended where it is.\<close>

lemma poll_set_status_other:
  "pid' \<noteq> pid \<Longrightarrow> poll (set_status pid' s st) pid = poll st pid"
  by (simp add: poll_def)

lemma poll_terminate_wait_kill_other:
  "pid' \<noteq> pid \<Longrightarrow> poll (terminate_wait_kill e pid' w st) pid = poll st pid"
  by (simp add: terminate_wait_kill_def poll_set_status_other split: option.splits)

lemma poll_unregister [simp]: "poll (unregister k st) pid = poll st pid"
  by (simp add: poll_def)

lemma stop_record_loop_keeps_ended:
  assumes "list_all (\<lambda>(k', p'). k' = key \<longrightarrow> poll st p' \<noteq> None) items"
  shows "map_of (current_processes (snd (stop_record_loop e items n st))) key
     = map_of (current_processes st) key"
  using assms
proof (induction e items n st rule: stop_record_loop.induct)
  case (1 e stopped_count st)
  show ?case
    by simp
next
  case (2 e key' pid' items stopped_count st)
  from "2.prems" have head: "key' = key \<longrightarrow> poll st pid' \<noteq> None"
    and tail: "list_all (\<lambda>(k', p'). k' = key \<longrightarrow> poll st p' \<noteq> None) items"
    by simp_all
  show ?case
  proof (cases "startswith key' ''record_'' \<and> poll st pid' = None")
    case True
    with head have kne: "key' \<noteq> key"
      by auto
    let ?st3 = "unregister key'
        (terminate_wait_kill e pid' (''Force killing recording process '' @ str_of_nat pid')
           (log_msg INFO (''Stopping recording process '' @ str_of_nat pid') st))"
    have m: "map_of (current_processes ?st3) key = map_of (current_processes st) key"
      using kne by (simp add: map_of_delete_other)
    have "poll ?st3 p' \<noteq> None" if "poll st p' \<noteq> None" for p'
    proof -
      from that True have "pid' \<noteq> p'"
        by auto
      then show ?thesis
        using that by (simp add: poll_terminate_wait_kill_other)
    qed
    with tail have "list_all (\<lambda>(k', p'). k' = key \<longrightarrow> poll ?st3 p' \<noteq> None) items"
      by (simp add: list_all_iff case_prod_beta)
    from "2.IH"(1) [OF True refl refl refl this] m
    have "map_of (current_processes (snd (stop_record_loop e items (stopped_count + 1) ?st3))) key
        = map_of (current_processes st) key"
      by simp
    moreover from True
    have "stop_record_loop e ((key', pid') # items) stopped_count st
        = stop_record_loop e items (stopped_count + 1) ?st3"
      by (simp add: Let_def)
    ultimately show ?thesis
      by (simp only:)
  next
    case False
    then have "stop_record_loop e ((key', pid') # items) stopped_count st
        = stop_record_loop e items stopped_count st"
      by (simp only: stop_record_loop.simps if_False)
    with "2.IH"(2) [OF False tail] show ?thesis
      by (simp only:)
  qed
qed

lemma handle_stop_record_keeps_ended:
  assumes "distinct (map fst (current_processes st))"
    and "map_of (current_processes st) key = Some pid" and "poll st pid \<noteq> None"
  shows "map_of (current_processes (snd (handle_stop_record e data st))) key = Some pid"
proof -
  have "p' = pid" if "(key, p') \<in> set (current_processes st)" for p'
    using map_of_is_SomeI [OF assms(1) that] assms(2) by simp
  with assms(3)
  have "list_all (\<lambda>(k', p'). k' = key \<longrightarrow> poll st p' \<noteq> None) (current_processes st)"
    by (auto simp: list_all_iff)
  from stop_record_loop_keeps_ended [OF this, of e 0] assms(2) show ?thesis
    by (simp add: handle_stop_record_def stop_record_try_def catch_Exception_def case_prod_beta)
qed

lemma handle_stop_stream_keeps_ended:
  assumes "map_of (current_processes st) key = Some pid" and "poll st pid \<noteq> None"
  shows "map_of (current_processes (snd (handle_stop_stream e data st))) key = Some pid"
proof (cases "key = ''live_stream''")
  case True
  with assms show ?thesis
    by (auto simp: handle_stop_stream_def stop_stream_try_def catch_Exception_def)
next
  case False
  with assms show ?thesis
    by (simp add: handle_stop_stream_def stop_stream_try_def catch_Exception_def Let_def
        map_of_delete_other split: option.splits)
qed

lemma monitor_ffmpeg_exit_simps [simp]:
  "procs (monitor_ffmpeg_exit k rc comm st) = procs st"
  "sent (monitor_ffmpeg_exit k rc comm st) = sent st"
  "tasks (monitor_ffmpeg_exit k rc comm st) = tasks st"
  by (simp_all add: monitor_ffmpeg_exit_def monitor_ffmpeg_report_def
      split: communicate_result.splits)

text \<open>
  The table after the monitor: the entry is deleted unless \<^verbatim>\<open>communicate\<close> raised, which only
  a non-zero return code lets it do.
\<close>

lemma monitor_ffmpeg_exit_table:
  "current_processes (monitor_ffmpeg_exit k (Some rc) comm st) =
     (case comm of
        CommunicateRaised x \<Rightarrow>
          if rc = 0 then AList.delete k (current_processes st) else current_processes st
      | Communicated out err \<Rightarrow> AList.delete k (current_processes st)
      | CommunicateTimeout \<Rightarrow> AList.delete k (current_processes st))"
  by (simp add: monitor_ffmpeg_exit_def monitor_ffmpeg_report_def
      split: communicate_result.splits)

lemma monitor_ffmpeg_exit_logged:
  "logged (monitor_ffmpeg_exit k (Some rc) comm st) =
     logged st @
       (if rc = 0 then [(INFO, ''FFmpeg process '' @ k @ '' completed successfully'')]
        else case comm of
               Communicated out err \<Rightarrow>
                 if err \<noteq> [] then
                   [(ERROR, ''FFmpeg process '' @ k @ '' failed with code '' @ str_of_int rc),
                    (ERROR, ''Final stderr: '' @ err)]
                 else []
             | CommunicateTimeout \<Rightarrow>
                 [(ERROR, ''FFmpeg process '' @ k @ '' failed and timed out during cleanup'')]
             | CommunicateRaised x \<Rightarrow>
                 [(ERROR, ''Error monitoring FFmpeg process '' @ k @ '': ''
                     @ exn_name (communicate_exn x))])"
  by (simp add: monitor_ffmpeg_exit_def monitor_ffmpeg_report_def returncode_text_def
      split: communicate_result.splits)

text \<open>
  The capture monitor of a process that has ended with return code \<open>rc\<close> returns, and after
  the lines of its polling phase it has logged: for \<open>rc = 0\<close> one success line at level INFO
  and no failure; for \<open>rc \<noteq> 0\<close> two ERROR lines when \<^verbatim>\<open>communicate\<close> returned a non-empty
  stderr, nothing when the remaining stderr is empty, one ERROR line when \<^verbatim>\<open>communicate\<close>
  timed out, and one ERROR line of the outer \<^verbatim>\<open>except\<close> when \<^verbatim>\<open>communicate\<close> raised another
  error. It removes the process's table entry and no other, except after that other error,
  where the table is left as it was.
\<close>

lemma monitor_ffmpeg_process_at_exit:
  assumes "poll st pid = Some rc"
  shows "\<exists>st'.
      monitor_ffmpeg_process pid process_key reads comm st = Some st'
    \<and> logged st' =
        logged (snd (monitor_ffmpeg_loop reads st)) @
          (if rc = 0 then
             [(INFO, ''FFmpeg process '' @ process_key @ '' completed successfully'')]
           else case comm of
                  Communicated out err \<Rightarrow>
                    if err \<noteq> [] then
                      [(ERROR, ''FFmpeg process '' @ process_key @ '' failed with code ''
                          @ str_of_int rc),
                       (ERROR, ''Final stderr: '' @ err)]
                    else []
                | CommunicateTimeout \<Rightarrow>
                    [(ERROR, ''FFmpeg process '' @ process_key
                        @ '' failed and timed out during cleanup'')]
                | CommunicateRaised x \<Rightarrow>
                    [(ERROR, ''Error monitoring FFmpeg process '' @ process_key @ '': ''
                        @ exn_name (communicate_exn x))])
    \<and> current_processes st' =
        (case comm of
           CommunicateRaised x \<Rightarrow>
             if rc = 0 then AList.delete process_key (current_processes st)
             else current_processes st
         | Communicated out err \<Rightarrow> AList.delete process_key (current_processes st)
         | CommunicateTimeout \<Rightarrow> AList.delete process_key (current_processes st))
    \<and> procs st' = procs st"
proof -
  let ?st1 = "snd (monitor_ffmpeg_loop reads st)"
  let ?st' = "monitor_ffmpeg_exit process_key (Some rc) comm ?st1"
  have "monitor_ffmpeg_process pid process_key reads comm st = Some ?st'"
    by (rule monitor_ffmpeg_process_ended [OF assms])
  moreover have "logged ?st' = logged ?st1 @
      (if rc = 0 then
         [(INFO, ''FFmpeg process '' @ process_key @ '' completed successfully'')]
       else case comm of
              Communicated out err \<Rightarrow>
                if err \<noteq> [] then
                  [(ERROR, ''FFmpeg process '' @ process_key @ '' failed with code ''
                      @ str_of_int rc),
                   (ERROR, ''Final stderr: '' @ err)]
                else []
            | CommunicateTimeout \<Rightarrow>
                [(ERROR, ''FFmpeg process '' @ process_key
                    @ '' failed and timed out during cleanup'')]
            | CommunicateRaised x \<Rightarrow>
                [(ERROR, ''Error monitoring FFmpeg process '' @ process_key @ '': ''
                    @ exn_name (communicate_exn x))])"
    by (rule monitor_ffmpeg_exit_logged)
  moreover have "current_processes ?st' =
      (case comm of
         CommunicateRaised x \<Rightarrow>
           if rc = 0 then AList.delete process_key (current_processes st)
           else current_processes st
       | Communicated out err \<Rightarrow> AList.delete process_key (current_processes st)
       | CommunicateTimeout \<Rightarrow> AList.delete process_key (current_processes st))"
    by (cases comm) (simp_all add: monitor_ffmpeg_exit_table monitor_ffmpeg_loop_frame)
  moreover have "procs ?st' = procs st"
    by (simp add: monitor_ffmpeg_loop_frame)
  ultimately show ?thesis
    by blast
qed

text \<open>
  A capture that ended with return code 1 and left \<^verbatim>\<open>No route to host\<close> in its stderr: the
  failure is logged and the entry removed.
\<close>

lemma failed_capture_with_stderr_is_reported:
  "\<exists>st'.
     monitor_ffmpeg_process 0 ''record_20240101_115900'' []
       (Communicated [] ''No route to host'') failed_capture_state = Some st'
   \<and> logged st' =
       [(ERROR, ''FFmpeg process record_20240101_115900 failed with code 1''),
        (ERROR, ''Final stderr: No route to host'')]
   \<and> map_of (current_processes st') ''record_20240101_115900'' = None"
proof -
  have p: "poll failed_capture_state 0 = Some 1"
    by (simp add: poll_def failed_capture_state_def)
  have l: "logged failed_capture_state = []"
    by (simp add: failed_capture_state_def)
  have one: "str_of_int 1 = ''1''"
    by (simp add: str_of_int_def str_of_nat.simps digit_char_def)
  from monitor_ffmpeg_process_at_exit
    [OF p, of "''record_20240101_115900''" "[]" "Communicated [] ''No route to host''"]
  show ?thesis
    by (auto simp: l one map_of_delete_same)
qed

text \<open>
  C6 says of every monitored process that ends on its own: exit code 0 is logged as success,
  a non-zero exit code always produces a logged failure, and in both cases the monitor
  removes the process's table entry. The capture monitor departs from it at two ends of a
  capture with return code 1, evaluated here in \<open>failed_capture_state\<close>, where the capture is
  process 0 under the key \<^verbatim>\<open>record_20240101_115900\<close> and nothing has been logged yet.

  \<^item> \<^verbatim>\<open>communicate\<close> returns empty output: the monitor removes the entry and logs nothing,
    because the record \<^verbatim>\<open>failed with code\<close> stands under \<^verbatim>\<open>if stderr:\<close>. The docstring of the
    monitor is \<^verbatim>\<open>Monitor FFmpeg process and log any errors\<close>, and the handler's own report
    of an immediate failure (lines 279 and 280) logs the failure and the return code outside
    that guard.

  \<^item> \<^verbatim>\<open>communicate\<close> raises \<^verbatim>\<open>UnicodeDecodeError\<close> (the remaining stderr holds bytes that are
    no text, and the pipes are in text mode): the monitor logs the one line of its outer
    \<^verbatim>\<open>except\<close> and the entry stays in the table, under the comment
    \<^verbatim>\<open># Clean up from our tracking\<close>.
\<close>

theorem monitor_misses_failure_record_and_cleanup:
  "poll failed_capture_state 0 = Some 1
   \<and> monitor_ffmpeg_process 0 ''record_20240101_115900'' [] (Communicated [] [])
        failed_capture_state
       = Some (failed_capture_state\<lparr>current_processes := []\<rparr>)
   \<and> logged (failed_capture_state\<lparr>current_processes := []\<rparr>) = []
   \<and> monitor_ffmpeg_process 0 ''record_20240101_115900'' [] (CommunicateRaised DecodeError)
        failed_capture_state
       = Some (failed_capture_state\<lparr>logged :=
           [(ERROR,
             ''Error monitoring FFmpeg process record_20240101_115900: UnicodeDecodeError'')]\<rparr>)
   \<and> map_of (current_processes (failed_capture_state\<lparr>logged :=
           [(ERROR,
             ''Error monitoring FFmpeg process record_20240101_115900: UnicodeDecodeError'')]\<rparr>))
         ''record_20240101_115900'' = Some 0"
  by (simp add: monitor_ffmpeg_process_def monitor_ffmpeg_exit_def monitor_ffmpeg_report_def
      failed_capture_state_def poll_def unregister_def log_msg_def)

section \<open>Where the output files are written\<close>

lemma os_path_join_relative:
  "\<not> startswith name ''/'' \<Longrightarrow> os_path_join dir name = path_in dir name"
  by (simp add: os_path_join_def path_in_def)

lemma startswith_literal [simp]: "startswith (c # s) [c'] = (c = c')"
  by (simp add: startswith_def)

lemma record_output_file_eq:
  "record_output_file cfg e user_id =
     path_in (config_recordings_dir cfg)
       (''record_'' @ timestamp e @ ''_'' @ py_str e user_id @ ''.mp4'')"
  by (simp add: record_output_file_def os_path_join_relative)

lemma test_record_output_file_eq:
  "test_record_output_file cfg e user_id =
     path_in (config_recordings_dir cfg)
       (''test_record_'' @ timestamp e @ ''_'' @ py_str e user_id @ ''.txt'')"
  by (simp add: test_record_output_file_def os_path_join_relative)

lemma test_stream_output_file_eq:
  "test_stream_output_file cfg e platform =
     path_in (path_in (config_recordings_dir cfg) ''logs'')
       (''test_stream_'' @ timestamp e @ ''_'' @ py_str e platform @ ''.log'')"
  by (simp add: test_stream_output_file_def os_path_join_relative)

text \<open>What a handler that launches a process appends to the process list.\<close>

lemma list_update_snoc: "(xs @ [p])[length xs := q] = xs @ [q]"
  by simp

lemma record_launch_procs:
  "procs (snd (record_launch cfg e cmd st)) = procs st
   \<or> (\<exists>s. procs (snd (record_launch cfg e cmd st))
        = procs st @ [\<lparr>proc_argv = cmd, proc_role = Capture, proc_status = s\<rparr>])"
  by (simp add: record_launch_def Let_def case_prod_beta settle_sleep_def
      split: option.splits)

lemma start_record_try_procs:
  "procs (snd (start_record_try cfg e (JObj d) st)) = procs st
   \<or> (\<exists>url dstr s. rtsp_url cfg = Some url
        \<and> duration_str (dict_get (case dict_get d ''meta'' (JObj []) of JObj m \<Rightarrow> m | _ \<Rightarrow> [])
              ''duration'' (JInt 1800)) = Inr dstr
        \<and> procs (snd (start_record_try cfg e (JObj d) st))
          = procs st @
            [\<lparr>proc_argv = record_ffmpeg_cmd url
                 (dict_get (case dict_get d ''meta'' (JObj []) of JObj m \<Rightarrow> m | _ \<Rightarrow> [])
                    ''quality'' (JStr ''1080p''))
                 dstr (record_output_file cfg e (dict_get d ''by'' (JStr ''unknown''))),
               proc_role = Capture, proc_status = s\<rparr>])"
proof (cases "dict_get d ''meta'' (JObj [])")
  case (JObj m)
  show ?thesis
  proof (cases "makedirs_ok e")
    case True
    show ?thesis
    proof (cases "rtsp_url cfg")
      case None
      with JObj True show ?thesis
        by (simp add: start_record_try_def Let_def)
    next
      case (Some url)
      show ?thesis
      proof (cases "duration_str (dict_get m ''duration'' (JInt 1800))")
        case (Inl x)
        with JObj True Some show ?thesis
          by (simp add: start_record_try_def Let_def)
      next
        case (Inr dstr)
        let ?cmd = "record_ffmpeg_cmd url (dict_get m ''quality'' (JStr ''1080p'')) dstr
            (record_output_file cfg e (dict_get d ''by'' (JStr ''unknown'')))"
        let ?st6 = "log_msg INFO (''FFmpeg command: '' @ join_words ?cmd)
           (log_msg INFO (''RTSP URL: '' @ url)
             (log_msg INFO (''Output file: ''
                  @ record_output_file cfg e (dict_get d ''by'' (JStr ''unknown'')))
               (log_msg INFO (''Recordings directory: '' @ config_recordings_dir cfg)
                 (log_msg INFO (''Recording parameters - duration: ''
                      @ py_str e (dict_get m ''duration'' (JInt 1800)) @ ''s, quality: ''
                      @ py_str e (dict_get m ''quality'' (JStr ''1080p'')))
                   (log_msg INFO ''=== START_RECORD handler called ==='' st)))))"
        have eq: "start_record_try cfg e (JObj d) st = record_launch cfg e ?cmd ?st6"
          using JObj True Some Inr by (simp add: start_record_try_def Let_def)
        from record_launch_procs [of cfg e ?cmd ?st6] show ?thesis
          using JObj Some Inr by (auto simp: eq)
      qed
    qed
  next
    case False
    with JObj show ?thesis
      by (simp add: start_record_try_def Let_def)
  qed
qed (simp_all add: start_record_try_def Let_def)

lemma catch_Exception_procs:
  assumes "\<And>x s. procs (snd (h x s)) = procs s"
  shows "procs (snd (catch_Exception r h)) = procs (snd r)"
  using assms by (cases r; cases "fst r") (auto simp: catch_Exception_def)

lemma handle_start_record_procs:
  "procs (snd (handle_start_record cfg e data st)) = procs (snd (start_record_try cfg e data st))"
  unfolding handle_start_record_def by (rule catch_Exception_procs) simp

lemma test_record_try_procs:
  "procs (snd (test_record_try cfg e (JObj d) st)) = procs st
   \<or> procs (snd (test_record_try cfg e (JObj d) st))
       = procs st @
         [\<lparr>proc_argv = test_record_cmd e
              (dict_get (case dict_get d ''meta'' (JObj []) of JObj m \<Rightarrow> m | _ \<Rightarrow> [])
                 ''duration'' (JInt 30))
              (test_record_output_file cfg e (dict_get d ''by'' (JStr ''unknown''))),
            proc_role = DiagnosticCapture, proc_status = Running\<rparr>]"
  by (cases "dict_get d ''meta'' (JObj [])")
     (simp_all add: test_record_try_def Let_def case_prod_beta)

lemma handle_test_record_procs:
  "procs (snd (handle_test_record cfg e data st)) = procs (snd (test_record_try cfg e data st))"
  unfolding handle_test_record_def by (rule catch_Exception_procs) simp

lemma test_stream_try_procs:
  "procs (snd (test_stream_try cfg e (JObj d) st)) = procs st
   \<or> procs (snd (test_stream_try cfg e (JObj d) st))
       = procs st @
         [\<lparr>proc_argv = test_stream_cmd e
              (dict_get (case dict_get d ''meta'' (JObj []) of JObj m \<Rightarrow> m | _ \<Rightarrow> [])
                 ''platform'' (JStr ''youtube''))
              (test_stream_output_file cfg e
                 (dict_get (case dict_get d ''meta'' (JObj []) of JObj m \<Rightarrow> m | _ \<Rightarrow> [])
                    ''platform'' (JStr ''youtube''))),
            proc_role = DiagnosticBroadcast, proc_status = Running\<rparr>]"
  by (cases "dict_get d ''meta'' (JObj [])")
     (simp_all add: test_stream_try_def Let_def case_prod_beta)

lemma handle_test_stream_procs:
  "procs (snd (handle_test_stream cfg e data st)) = procs (snd (test_stream_try cfg e data st))"
  unfolding handle_test_stream_def by (rule catch_Exception_procs) simp

text \<open>
  C9, as the code has it. Whenever \<^verbatim>\<open>START_RECORD\<close> launches a process, it is a capture whose
  output file, the last argument of the encoder, is
  \<^verbatim>\<open><output_dir>/record_<timestamp>_<issuer>.mp4\<close>. Whenever \<^verbatim>\<open>TEST_RECORD\<close> launches a process,
  it is a diagnostic capture writing \<^verbatim>\<open><output_dir>/test_record_<timestamp>_<issuer>.txt\<close>,
  directly in the output directory. Whenever \<^verbatim>\<open>TEST_STREAM\<close> launches a process, it is a
  diagnostic broadcast writing \<^verbatim>\<open><output_dir>/logs/test_stream_<timestamp>_<platform>.log\<close>:
  the file under \<^verbatim>\<open>logs/\<close> is the diagnostic broadcast's.
\<close>

theorem output_files:
  "(procs (snd (handle_start_record cfg e (JObj d) st)) \<noteq> procs st \<longrightarrow>
      (\<exists>p. procs (snd (handle_start_record cfg e (JObj d) st)) = procs st @ [p]
         \<and> proc_role p = Capture
         \<and> last (proc_argv p) =
             path_in (config_recordings_dir cfg)
               (''record_'' @ timestamp e @ ''_''
                  @ py_str e (dict_get d ''by'' (JStr ''unknown'')) @ ''.mp4'')))
   \<and> (procs (snd (handle_test_record cfg e (JObj d) st)) \<noteq> procs st \<longrightarrow>
      (\<exists>p. procs (snd (handle_test_record cfg e (JObj d) st)) = procs st @ [p]
         \<and> proc_role p = DiagnosticCapture
         \<and> proc_argv p =
             test_record_cmd e (dict_get (command_meta d) ''duration'' (JInt 30))
               (path_in (config_recordings_dir cfg)
                  (''test_record_'' @ timestamp e @ ''_''
                     @ py_str e (dict_get d ''by'' (JStr ''unknown'')) @ ''.txt''))))
   \<and> (procs (snd (handle_test_stream cfg e (JObj d) st)) \<noteq> procs st \<longrightarrow>
      (\<exists>p. procs (snd (handle_test_stream cfg e (JObj d) st)) = procs st @ [p]
         \<and> proc_role p = DiagnosticBroadcast
         \<and> proc_argv p =
             test_stream_cmd e (dict_get (command_meta d) ''platform'' (JStr ''youtube''))
               (path_in (path_in (config_recordings_dir cfg) ''logs'')
                  (''test_stream_'' @ timestamp e @ ''_''
                     @ py_str e (dict_get (command_meta d) ''platform'' (JStr ''youtube''))
                     @ ''.log''))))"
proof (intro conjI impI)
  assume "procs (snd (handle_start_record cfg e (JObj d) st)) \<noteq> procs st"
  with start_record_try_procs [of cfg e d st]
  obtain url dstr s where
    "procs (snd (handle_start_record cfg e (JObj d) st))
       = procs st @
         [\<lparr>proc_argv = record_ffmpeg_cmd url
              (dict_get (command_meta d) ''quality'' (JStr ''1080p''))
              dstr (record_output_file cfg e (dict_get d ''by'' (JStr ''unknown''))),
            proc_role = Capture, proc_status = s\<rparr>]"
    by (auto simp: handle_start_record_procs command_meta_def)
  then show "\<exists>p. procs (snd (handle_start_record cfg e (JObj d) st)) = procs st @ [p]
      \<and> proc_role p = Capture
      \<and> last (proc_argv p) =
          path_in (config_recordings_dir cfg)
            (''record_'' @ timestamp e @ ''_''
               @ py_str e (dict_get d ''by'' (JStr ''unknown'')) @ ''.mp4'')"
    by (simp add: record_ffmpeg_cmd_def record_output_file_eq)
next
  assume "procs (snd (handle_test_record cfg e (JObj d) st)) \<noteq> procs st"
  with test_record_try_procs [of cfg e d st]
  show "\<exists>p. procs (snd (handle_test_record cfg e (JObj d) st)) = procs st @ [p]
      \<and> proc_role p = DiagnosticCapture
      \<and> proc_argv p =
          test_record_cmd e (dict_get (command_meta d) ''duration'' (JInt 30))
            (path_in (config_recordings_dir cfg)
               (''test_record_'' @ timestamp e @ ''_''
                  @ py_str e (dict_get d ''by'' (JStr ''unknown'')) @ ''.txt''))"
    by (simp add: handle_test_record_procs command_meta_def test_record_output_file_eq)
next
  assume "procs (snd (handle_test_stream cfg e (JObj d) st)) \<noteq> procs st"
  with test_stream_try_procs [of cfg e d st]
  show "\<exists>p. procs (snd (handle_test_stream cfg e (JObj d) st)) = procs st @ [p]
      \<and> proc_role p = DiagnosticBroadcast
      \<and> proc_argv p =
          test_stream_cmd e (dict_get (command_meta d) ''platform'' (JStr ''youtube''))
            (path_in (path_in (config_recordings_dir cfg) ''logs'')
               (''test_stream_'' @ timestamp e @ ''_''
                  @ py_str e (dict_get (command_meta d) ''platform'' (JStr ''youtube''))
                  @ ''.log''))"
    by (simp add: handle_test_stream_procs command_meta_def test_stream_output_file_eq)
qed

lemma test_record_sample:
  "handle_test_record sample_config sample_env
     (JObj (command_fields ''TEST_RECORD'' (JObj [(''duration'', JInt 5)]))) initial_state
   = (Inr True,
      \<lparr>current_processes = [(''test_record_20240101_120000'', 0)],
       procs =
         [\<lparr>proc_argv = test_record_cmd sample_env (JInt 5)
              ''recordings/test_record_20240101_120000_u1.txt'',
            proc_role = DiagnosticCapture, proc_status = Running\<rparr>],
       logged =
         [(INFO, ''Starting test recording: recordings/test_record_20240101_120000_u1.txt''),
          (INFO, ''Test recording started with PID 0'')],
       sent = [], tasks = [], running = True\<rparr>)"
  by (simp add: handle_test_record_def test_record_try_def catch_Exception_def Let_def
      command_fields_def dict_get_def sample_env_def sample_config_def initial_state_def
      popen_def register_def log_msg_def test_record_output_file_def os_path_join_def
      config_recordings_dir_def startswith_def str_of_nat_0)

text \<open>
  \<^verbatim>\<open>TEST_RECORD\<close> with the output directory \<^verbatim>\<open>recordings\<close>: the diagnostic capture writes
  \<^verbatim>\<open>recordings/test_record_20240101_120000_u1.txt\<close>, which is not under \<^verbatim>\<open>recordings/logs/\<close>.
\<close>

theorem diagnostic_capture_file_not_under_logs:
  "map (\<lambda>p. (proc_role p, proc_argv p))
     (procs (snd (handle_test_record sample_config sample_env
        (JObj (command_fields ''TEST_RECORD'' (JObj [(''duration'', JInt 5)]))) initial_state)))
     = [(DiagnosticCapture,
         test_record_cmd sample_env (JInt 5) ''recordings/test_record_20240101_120000_u1.txt'')]
   \<and> \<not> startswith ''recordings/test_record_20240101_120000_u1.txt''
         (path_in (config_recordings_dir sample_config) ''logs/'')"
proof
  show "map (\<lambda>p. (proc_role p, proc_argv p))
     (procs (snd (handle_test_record sample_config sample_env
        (JObj (command_fields ''TEST_RECORD'' (JObj [(''duration'', JInt 5)]))) initial_state)))
     = [(DiagnosticCapture,
         test_record_cmd sample_env (JInt 5) ''recordings/test_record_20240101_120000_u1.txt'')]"
    by (simp add: test_record_sample)
  show "\<not> startswith ''recordings/test_record_20240101_120000_u1.txt''
         (path_in (config_recordings_dir sample_config) ''logs/'')"
    by (simp add: path_in_def config_recordings_dir_def sample_config_def startswith_def)
qed

lemma test_stream_sample:
  "procs (snd (handle_test_stream sample_config sample_env
     (JObj (command_fields ''TEST_STREAM'' (JObj []))) initial_state))
   = [\<lparr>proc_argv = test_stream_cmd sample_env (JStr ''youtube'')
         ''recordings/logs/test_stream_20240101_120000_youtube.log'',
       proc_role = DiagnosticBroadcast, proc_status = Running\<rparr>]"
  by (simp add: handle_test_stream_def test_stream_try_def catch_Exception_def Let_def
      command_fields_def dict_get_def sample_env_def sample_config_def initial_state_def
      popen_def register_def log_msg_def test_stream_output_file_def os_path_join_def
      config_recordings_dir_def startswith_def str_of_nat_0)

lemma record_launch_success:
  assumes "ffmpeg_ok e" and "probe e = ProbeExit 0 err" and "popen_ok e"
    and "settle_exit e = None" and "rtsp_url cfg = Some url"
  shows "procs (snd (record_launch cfg e cmd s))
      = procs s @ [\<lparr>proc_argv = cmd, proc_role = Capture, proc_status = Running\<rparr>]"
proof -
  have t: "fst (test_rtsp_connection cfg e s') = True" for s'
    using assms by (simp add: test_rtsp_connection_def Let_def)
  show ?thesis
    using assms by (simp add: record_launch_def Let_def case_prod_beta t settle_sleep_def poll_def)
qed

lemma start_record_try_success:
  assumes "dict_get d ''meta'' (JObj []) = JObj m" and "makedirs_ok e"
    and "rtsp_url cfg = Some url"
    and "duration_str (dict_get m ''duration'' (JInt 1800)) = Inr dstr"
    and "ffmpeg_ok e" and "probe e = ProbeExit 0 err" and "popen_ok e"
    and "settle_exit e = None"
  shows "procs (snd (start_record_try cfg e (JObj d) st))
      = procs st @
        [\<lparr>proc_argv = record_ffmpeg_cmd url (dict_get m ''quality'' (JStr ''1080p'')) dstr
             (record_output_file cfg e (dict_get d ''by'' (JStr ''unknown''))),
           proc_role = Capture, proc_status = Running\<rparr>]"
  using assms(1-4)
  by (simp add: start_record_try_def Let_def record_launch_success [OF assms(5-8) assms(3)])

lemma start_record_sample:
  "procs (snd (handle_start_record sample_config sample_env
     (JObj (command_fields ''START_RECORD'' (JObj [(''duration'', JInt 5)]))) initial_state))
   = [\<lparr>proc_argv = record_ffmpeg_cmd ''rtsp://camera/Streaming/Channels/101'' (JStr ''1080p'')
         ''00:00:05'' ''recordings/record_20240101_120000_u1.mp4'',
       proc_role = Capture, proc_status = Running\<rparr>]"
proof -
  let ?m = "[(''duration'', JInt 5)]"
  let ?d = "command_fields ''START_RECORD'' (JObj ?m)"
  have m: "dict_get ?d ''meta'' (JObj []) = JObj ?m"
    by (simp add: command_fields_def dict_get_def)
  have d: "duration_str (dict_get ?m ''duration'' (JInt 1800)) = Inr ''00:00:05''"
    by (simp add: dict_get_def hms_str_def fmt_02d_def str_of_int_def str_of_nat.simps
        digit_char_def)
  have e: "makedirs_ok sample_env" "ffmpeg_ok sample_env" "probe sample_env = ProbeExit 0 []"
    "popen_ok sample_env" "settle_exit sample_env = None"
    by (simp_all add: sample_env_def)
  have u: "rtsp_url sample_config = Some ''rtsp://camera/Streaming/Channels/101''"
    by (simp add: sample_config_def)
  have q: "dict_get ?m ''quality'' (JStr ''1080p'') = JStr ''1080p''"
    by (simp add: dict_get_def)
  have f: "record_output_file sample_config sample_env (dict_get ?d ''by'' (JStr ''unknown''))
      = ''recordings/record_20240101_120000_u1.mp4''"
    by (simp add: record_output_file_def os_path_join_def config_recordings_dir_def
        sample_config_def sample_env_def command_fields_def dict_get_def startswith_def)
  have i: "procs initial_state = []"
    by (simp add: initial_state_def)
  show ?thesis
    using start_record_try_success [OF m e(1) u d e(2,3,4,5), of initial_state]
    by (simp only: handle_start_record_procs q f i append_Nil)
qed

text \<open>The three commands in the initial state, with the output directory \<^verbatim>\<open>recordings\<close>.\<close>

theorem output_files_witness:
  "procs (snd (handle_start_record sample_config sample_env
      (JObj (command_fields ''START_RECORD'' (JObj [(''duration'', JInt 5)]))) initial_state))
     \<noteq> procs initial_state
   \<and> procs (snd (handle_test_stream sample_config sample_env
      (JObj (command_fields ''TEST_STREAM'' (JObj []))) initial_state))
     \<noteq> procs initial_state
   \<and> procs (snd (handle_test_record sample_config sample_env
      (JObj (command_fields ''TEST_RECORD'' (JObj [(''duration'', JInt 5)]))) initial_state))
     \<noteq> procs initial_state
   \<and> (\<exists>p. procs (snd (handle_start_record sample_config sample_env
              (JObj (command_fields ''START_RECORD'' (JObj [(''duration'', JInt 5)])))
              initial_state)) = procs initial_state @ [p]
         \<and> proc_role p = Capture
         \<and> last (proc_argv p) = ''recordings/record_20240101_120000_u1.mp4'')
   \<and> (\<exists>p. procs (snd (handle_test_stream sample_config sample_env
              (JObj (command_fields ''TEST_STREAM'' (JObj []))) initial_state))
            = procs initial_state @ [p]
         \<and> proc_role p = DiagnosticBroadcast
         \<and> proc_argv p = test_stream_cmd sample_env (JStr ''youtube'')
              ''recordings/logs/test_stream_20240101_120000_youtube.log'')"
proof -
  let ?rec = "command_fields ''START_RECORD'' (JObj [(''duration'', JInt 5)])"
  let ?ts = "command_fields ''TEST_STREAM'' (JObj [])"
  let ?tr = "command_fields ''TEST_RECORD'' (JObj [(''duration'', JInt 5)])"
  have i: "procs initial_state = []"
    by (simp add: initial_state_def)
  have a: "procs (snd (handle_start_record sample_config sample_env (JObj ?rec) initial_state))
      \<noteq> procs initial_state"
    by (simp add: start_record_sample i)
  have b: "procs (snd (handle_test_stream sample_config sample_env (JObj ?ts) initial_state))
      \<noteq> procs initial_state"
    by (simp add: test_stream_sample i)
  have c: "procs (snd (handle_test_record sample_config sample_env (JObj ?tr) initial_state))
      \<noteq> procs initial_state"
    by (simp add: test_record_sample i)
  have names: "path_in (config_recordings_dir sample_config)
        (''record_'' @ timestamp sample_env @ ''_''
           @ py_str sample_env (dict_get ?rec ''by'' (JStr ''unknown'')) @ ''.mp4'')
      = ''recordings/record_20240101_120000_u1.mp4''"
    "path_in (path_in (config_recordings_dir sample_config) ''logs'')
        (''test_stream_'' @ timestamp sample_env @ ''_''
           @ py_str sample_env (dict_get (command_meta ?ts) ''platform'' (JStr ''youtube''))
           @ ''.log'')
      = ''recordings/logs/test_stream_20240101_120000_youtube.log''"
    "dict_get (command_meta ?ts) ''platform'' (JStr ''youtube'') = JStr ''youtube''"
    "path_in (path_in (config_recordings_dir sample_config) ''logs'')
        (''test_stream_'' @ timestamp sample_env @ ''_''
           @ py_str sample_env (JStr ''youtube'') @ ''.log'')
      = ''recordings/logs/test_stream_20240101_120000_youtube.log''"
    by (simp_all add: path_in_def config_recordings_dir_def sample_config_def sample_env_def
        command_fields_def command_meta_def dict_get_def)
  have r1: "\<exists>p. procs (snd (handle_start_record sample_config sample_env (JObj ?rec)
              initial_state)) = procs initial_state @ [p]
         \<and> proc_role p = Capture
         \<and> last (proc_argv p) = ''recordings/record_20240101_120000_u1.mp4''"
    using output_files [of sample_config sample_env ?rec initial_state,
        THEN conjunct1, rule_format, OF a]
    by (simp only: names)
  have r2: "\<exists>p. procs (snd (handle_test_stream sample_config sample_env (JObj ?ts)
              initial_state)) = procs initial_state @ [p]
         \<and> proc_role p = DiagnosticBroadcast
         \<and> proc_argv p = test_stream_cmd sample_env (JStr ''youtube'')
              ''recordings/logs/test_stream_20240101_120000_youtube.log''"
    using output_files [of sample_config sample_env ?ts initial_state,
        THEN conjunct2, THEN conjunct2, rule_format, OF b]
    by (simp only: names)
  from a b c r1 r2 show ?thesis
    by (intro conjI)
qed

section \<open>Giving up the connection\<close>

lemma link_msg_simps [simp]:
  "attempts (link_msg lv m l) = attempts l"
  "slept (link_msg lv m l) = slept l"
  "ws_open (link_msg lv m l) = ws_open l"
  by (simp_all add: link_msg_def)

lemma connect_loop_exhausted:
  "\<not> int attempt < n \<Longrightarrow> connect_loop uri n delay ok attempt l = (None, l)"
  by (subst connect_loop.simps) simp

lemma connect_loop_all_fail:
  assumes "k = nat (n - int attempt)" and "int attempt < n"
  shows "\<exists>l'. connect_loop uri n delay (\<lambda>i. False) attempt l = (Some False, l')
    \<and> attempts l' = attempts l + k
    \<and> slept l' = slept l @ replicate (k - 1) delay
    \<and> ws_open l' = ws_open l"
  using assms
proof (induction k arbitrary: attempt l)
  case 0
  then show ?case
    by simp
next
  case (Suc k)
  show ?case
  proof (cases "int attempt < n - 1")
    case True
    let ?l3 = "link_msg ERROR (''Connection attempt '' @ str_of_nat (attempt + 1) @ '' failed'')
        ((link_msg INFO (''Connecting to '' @ uri @ '' (attempt '' @ str_of_nat (attempt + 1)
            @ ''/'' @ str_of_int n @ '')'') l)
         \<lparr>attempts := attempts l + 1\<rparr>)"
    let ?l4 = "(link_msg INFO (''Retrying in '' @ str_of_int delay @ '' seconds...'') ?l3)
        \<lparr>slept := slept ?l3 @ [delay]\<rparr>"
    have step: "connect_loop uri n delay (\<lambda>i. False) attempt l
        = connect_loop uri n delay (\<lambda>i. False) (attempt + 1) ?l4"
      using True Suc.prems(2) by (subst connect_loop.simps) (simp add: Let_def)
    have k: "k = nat (n - int (attempt + 1))" and lt: "int (attempt + 1) < n" and pos: "0 < k"
      using Suc.prems True by simp_all
    from Suc.IH [OF k lt, of ?l4] obtain l' where
      r: "connect_loop uri n delay (\<lambda>i. False) (attempt + 1) ?l4 = (Some False, l')"
      and a: "attempts l' = attempts ?l4 + k"
      and s: "slept l' = slept ?l4 @ replicate (k - 1) delay"
      and w: "ws_open l' = ws_open ?l4"
      by blast
    have "slept l' = slept l @ replicate k delay"
      using s pos by (cases k) (simp_all add: replicate_append_same)
    with r a w show ?thesis
      by (simp add: step)
  next
    case False
    with Suc.prems have k: "k = 0"
      by simp
    from False Suc.prems(2) show ?thesis
      by (subst connect_loop.simps) (simp add: Let_def k)
  qed
qed

text \<open>
  C3, as the code has it. When every attempt fails, \<open>connect\<close> returns, having made exactly
  as many attempts as \<^verbatim>\<open>max_retries\<close> counts (none for a count below one, and never one
  more), with one sleep of \<^verbatim>\<open>retry_delay\<close> between two consecutive attempts and none after
  the last; the connection is not open and the result is not \<open>True\<close>. The result is \<open>False\<close>
  whenever \<^verbatim>\<open>max_retries\<close> is at least one.
\<close>

theorem connect_gives_up:
  "\<exists>r l'. connect uri cfg (\<lambda>i. False) l = (r, l')
     \<and> attempts l' = attempts l + nat (config_max_retries cfg)
     \<and> slept l' = slept l @ replicate (nat (config_max_retries cfg) - 1) (config_retry_delay cfg)
     \<and> ws_open l' = ws_open l
     \<and> r \<noteq> Some True
     \<and> (1 \<le> config_max_retries cfg \<longrightarrow> r = Some False)"
proof (cases "1 \<le> config_max_retries cfg")
  case True
  then have "int 0 < config_max_retries cfg"
    by simp
  from connect_loop_all_fail [OF _ this, of "nat (config_max_retries cfg)" uri
      "config_retry_delay cfg" l]
  show ?thesis
    by (auto simp: connect_def)
next
  case False
  then have "connect uri cfg (\<lambda>i. False) l = (None, l)"
    by (simp add: connect_def connect_loop_exhausted)
  with False show ?thesis
    by simp
qed

text \<open>
  With \<^verbatim>\<open>MAX_RETRIES=0\<close> the loop body never runs and the function ends without a
  \<^verbatim>\<open>return\<close>: the result is \<open>None\<close>, not \<open>False\<close>.
\<close>

theorem connect_zero_retries_returns_none:
  "connect ''wss://localhost:3000/ws'' (sample_config\<lparr>max_retries := Some 0\<rparr>) (\<lambda>i. False)
     initial_link = (None, initial_link)
   \<and> fst (connect ''wss://localhost:3000/ws'' (sample_config\<lparr>max_retries := Some 0\<rparr>)
        (\<lambda>i. False) initial_link) \<noteq> Some False"
  by (simp add: connect_def config_max_retries_def connect_loop_exhausted)

text \<open>With the sample configuration: five attempts, four sleeps of five seconds, \<open>False\<close>.\<close>

theorem connect_gives_up_witness:
  "1 \<le> config_max_retries sample_config
   \<and> (\<exists>l'. connect ''wss://localhost:3000/ws'' sample_config (\<lambda>i. False) initial_link
          = (Some False, l')
        \<and> attempts l' = 5 \<and> slept l' = [5, 5, 5, 5] \<and> \<not> ws_open l')"
proof -
  have n: "config_max_retries sample_config = 5" and d: "config_retry_delay sample_config = 5"
    by (simp_all add: config_max_retries_def config_retry_delay_def sample_config_def)
  have r: "replicate 4 (5::int) = [5, 5, 5, 5]"
    by (simp add: numeral_eq_Suc)
  from connect_gives_up [of "''wss://localhost:3000/ws''" sample_config initial_link]
  show ?thesis
    by (auto simp: n d r initial_link_def)
qed

section \<open>Restarting a broadcast\<close>








end
